theory Spec2Isabelle
  imports Complex_Main
begin

section \<open>Python values and exceptions\<close>

text \<open>
  The scoring engine of \<^verbatim>\<open>simulation/predictor.py\<close>, the quit-smoking mutator of
  \<^verbatim>\<open>simulation/run_simulation.py\<close> and the health-metrics generator of
  \<^verbatim>\<open>simulation/data_generator.py\<close>, as HOL functions.

  Numbers. Python's numbers (ints and binary floats) are modelled as exact reals: a
  comparison, a sum or a quotient is the mathematical one, with no rounding error and no
  infinity or NaN. \<^verbatim>\<open>round(x, n)\<close> is modelled with its documented meaning, round half to
  even at \<open>n\<close> decimals.

  Exceptions. A function that can raise returns \<open>error + 'a\<close>, with \<open>Inl\<close> the exception.
  The exceptions the modelled code can raise on a record of the documented shape are
  \<^verbatim>\<open>KeyError\<close> (a missing dictionary key) and \<^verbatim>\<open>ZeroDivisionError\<close>.

  Clock and randomness. \<^verbatim>\<open>datetime.now().isoformat()\<close> is a parameter of each function
  that reads the clock, and the draws of \<^verbatim>\<open>random\<close> and \<^verbatim>\<open>numpy.random\<close> are
  parameters of each function that samples.
\<close>

datatype error = KeyError string | ZeroDivisionError

definition bind_err :: "error + 'a \<Rightarrow> ('a \<Rightarrow> error + 'b) \<Rightarrow> error + 'b" where
  "bind_err m f = (case m of Inl e \<Rightarrow> Inl e | Inr x \<Rightarrow> f x)"

text \<open>\<^verbatim>\<open>d[k]\<close> on a key that may be absent: \<open>None\<close> is the absent key.\<close>

definition getitem :: "string \<Rightarrow> 'a option \<Rightarrow> error + 'a" where
  "getitem k v = (case v of None \<Rightarrow> Inl (KeyError k) | Some x \<Rightarrow> Inr x)"

text \<open>\<^verbatim>\<open>d[k]\<close> and \<^verbatim>\<open>d.get(k, default)\<close> on a dictionary kept as an association list.\<close>

definition dict_getitem :: "(string \<times> 'a) list \<Rightarrow> string \<Rightarrow> error + 'a" where
  "dict_getitem d k = getitem k (map_of d k)"

definition dict_get :: "(string \<times> 'a) list \<Rightarrow> string \<Rightarrow> 'a \<Rightarrow> 'a" where
  "dict_get d k dflt = (case map_of d k of None \<Rightarrow> dflt | Some v \<Rightarrow> v)"

definition dict_values :: "(string \<times> 'a) list \<Rightarrow> 'a list" where
  "dict_values d = map snd d"

text \<open>\<^verbatim>\<open>a / b\<close>: true division raises on a zero divisor.\<close>

definition py_div :: "real \<Rightarrow> real \<Rightarrow> error + real" where
  "py_div a b = (if b = 0 then Inl ZeroDivisionError else Inr (a / b))"

text \<open>\<^verbatim>\<open>str(e)\<close> of a caught exception.\<close>

fun str_exc :: "error \<Rightarrow> string" where
  "str_exc (KeyError k) = [CHR 0x27] @ k @ [CHR 0x27]"
| "str_exc ZeroDivisionError = ''division by zero''"

text \<open>\<^verbatim>\<open>round(x)\<close> and \<^verbatim>\<open>round(x, n)\<close>: to the nearest, a tie to the even neighbour.\<close>

definition round_half_even :: "real \<Rightarrow> int" where
  "round_half_even x =
     (let f = \<lfloor>x\<rfloor>; d = x - of_int f
      in if d < 1 / 2 then f else if 1 / 2 < d then f + 1 else if even f then f else f + 1)"

definition py_round :: "real \<Rightarrow> nat \<Rightarrow> real" where
  "py_round x n = of_int (round_half_even (x * 10 ^ n)) / 10 ^ n"

text \<open>\<^verbatim>\<open>s.lower()\<close> on ASCII text.\<close>

definition lower_char :: "char \<Rightarrow> char" where
  "lower_char c =
     (case map_of (zip ''ABCDEFGHIJKLMNOPQRSTUVWXYZ'' ''abcdefghijklmnopqrstuvwxyz'') c of
        None \<Rightarrow> c
      | Some l \<Rightarrow> l)"

definition lower :: "string \<Rightarrow> string" where
  "lower s = map lower_char s"

type_synonym timestamp = string

section \<open>The input record\<close>

text \<open>
  \<^verbatim>\<open>user_data\<close> is a dictionary of five sections. A section that is absent is \<open>None\<close>,
  and so is an absent \<^verbatim>\<open>user_id\<close> of the profile: the code reads both where it handles
  errors. Every other field the modelled functions read is present and of its documented
  type. The copies of \<^verbatim>\<open>user_id\<close> and the time stamps inside the sections, the
  \<^verbatim>\<open>device_id\<close>, the frequency sweep, the autoimmune risks and \<^verbatim>\<open>daily_vitals\<close> are
  read and written by none of the modelled functions and are left out.
\<close>

record family_history =
  fh_cardiovascular_disease :: bool
  fh_diabetes :: bool
  fh_cancer :: bool
  fh_neurodegenerative_disease :: bool

record user_profile =
  user_id :: "string option"
  gender :: string
  age :: real
  height_cm :: real
  weight_kg :: real
  bmi :: real
  smoking_status :: string
  alcohol_frequency :: string
  family_history :: family_history

record blood_pressure =
  systolic :: real
  diastolic :: real

record cholesterol =
  total_chol :: real
  hdl :: real
  ldl :: real

record health_metrics =
  blood_pressure :: blood_pressure
  resting_heart_rate :: real
  cholesterol :: cholesterol
  fasting_glucose :: real
  hba1c :: real
  vo2_max :: real
  body_fat_percentage :: real

record impedance_data =
  chronological_age :: real
  estimated_biological_age :: real

record exercise =
  frequency :: string
  minutes_per_week :: real
  types :: "string list"

record sleep =
  average_hours :: real
  quality :: string

record diet =
  diet_type :: string
  fruit_veg_servings_daily :: real
  processed_food_frequency :: string

record lifestyle_data =
  exercise :: exercise
  sleep :: sleep
  diet :: diet
  stress_level :: string

record risk_factors =
  cardiovascular_disease :: real
  type_2_diabetes :: real
  cancer :: "(string \<times> real) list"
  neurodegenerative :: "(string \<times> real) list"

record genetic_data =
  risk_factors :: risk_factors

record user_data =
  user_profile :: "user_profile option"
  health_metrics :: "health_metrics option"
  impedance_data :: "impedance_data option"
  lifestyle_data :: "lifestyle_data option"
  genetic_data :: "genetic_data option"

section \<open>Life expectancy: \<^verbatim>\<open>LifePredictor.predict_life_expectancy\<close>\<close>

text \<open>The tables of \<^verbatim>\<open>self.risk_factor_weights\<close> that are looked up by a string.\<close>

definition smoking_weights :: "(string \<times> real) list" where
  "smoking_weights = [(''never'', 0), (''former'', - 2.0), (''current'', - 10.0)]"

definition processed_food_weights :: "(string \<times> real) list" where
  "processed_food_weights =
     [(''rarely'', 0), (''sometimes'', - 0.8), (''often'', - 1.8), (''very_frequently'', - 3.0)]"

definition sleep_quality_weights :: "(string \<times> real) list" where
  "sleep_quality_weights = [(''poor'', - 1.5), (''fair'', - 0.7), (''good'', 0), (''excellent'', 0.8)]"

definition alcohol_weights :: "(string \<times> real) list" where
  "alcohol_weights = [(''none'', 0), (''rare'', 0.5), (''moderate'', 0), (''frequent'', - 3.0)]"

definition stress_weights :: "(string \<times> real) list" where
  "stress_weights = [(''low'', 1.0), (''moderate'', 0), (''high'', - 2.0), (''very_high'', - 4.0)]"

definition base_expectancy :: "user_profile \<Rightarrow> real" where
  "base_expectancy p = (if lower (gender p) = ''male'' then 76.1 else 81.1)"

definition smoking_adj :: "user_profile \<Rightarrow> real" where
  "smoking_adj p = dict_get smoking_weights (lower (smoking_status p)) 0"

definition bmi_adj :: "user_profile \<Rightarrow> real" where
  "bmi_adj p =
     (if bmi p > 25.0 then (bmi p - 25.0) * (- 0.4)
      else if bmi p < 18.5 then (18.5 - bmi p) * (- 0.3)
      else 0)"

definition bp_adj :: "health_metrics \<Rightarrow> real" where
  "bp_adj hm =
     (if systolic (blood_pressure hm) > 115
      then ((systolic (blood_pressure hm) - 115) / 10) * (- 1.2)
      else 0)"

definition chol_adj :: "health_metrics \<Rightarrow> error + real" where
  "chol_adj hm =
     bind_err (py_div (total_chol (cholesterol hm)) (hdl (cholesterol hm))) (\<lambda>chol_ratio.
       Inr (if chol_ratio > 3.5 then (chol_ratio - 3.5) * (- 1.0) else 0))"

definition exercise_adj :: "lifestyle_data \<Rightarrow> real" where
  "exercise_adj ls =
     (let exercise_minutes = minutes_per_week (exercise ls)
      in if exercise_minutes = 0 then 0
         else if exercise_minutes \<le> 60 then 1.0
         else if exercise_minutes \<le> 150 then 2.5
         else if exercise_minutes \<le> 300 then 3.5
         else 4.2)"

definition diet_adj :: "lifestyle_data \<Rightarrow> real" where
  "diet_adj ls =
     (let d0 = 0 + fruit_veg_servings_daily (diet ls) * 0.4;
          d1 = (if lower (diet_type (diet ls)) = ''mediterranean'' then d0 + 2.5 else d0)
      in d1 + dict_get processed_food_weights (lower (processed_food_frequency (diet ls))) 0)"

definition sleep_adj :: "lifestyle_data \<Rightarrow> real" where
  "sleep_adj ls =
     (let sleep_hours = average_hours (sleep ls);
          s0 = (if sleep_hours < 7.5 then 0 + (sleep_hours - 7.5) * (- 0.5) else 0)
      in s0 + dict_get sleep_quality_weights (lower (quality (sleep ls))) 0)"

definition alcohol_adj :: "user_profile \<Rightarrow> real" where
  "alcohol_adj p = dict_get alcohol_weights (lower (alcohol_frequency p)) 0"

definition stress_adj :: "lifestyle_data \<Rightarrow> real" where
  "stress_adj ls = dict_get stress_weights (lower (stress_level ls)) 0"

definition social_adj :: "lifestyle_data \<Rightarrow> real" where
  "social_adj ls =
     (let team_activities =
            filter (\<lambda>act. lower act \<in> set [''team sports'', ''dancing'', ''yoga'', ''pilates''])
              (types (exercise ls))
      in if team_activities \<noteq> []
         then min (1.8 * (of_nat (length team_activities) / 4)) 1.8
         else 0)"

text \<open>\<^verbatim>\<open>sum(xs) / len(xs)\<close>, which raises on the empty collection.\<close>

definition average :: "real list \<Rightarrow> error + real" where
  "average xs = py_div (sum_list xs) (of_nat (length xs))"

definition genetic_adj :: "genetic_data \<Rightarrow> error + real" where
  "genetic_adj g =
     (let rf = risk_factors g;
          g1 = 0 + cardiovascular_disease rf * (- 5.0);
          g2 = g1 + type_2_diabetes rf * (- 3.5)
      in bind_err (average (dict_values (cancer rf))) (\<lambda>avg_cancer_risk.
         let g3 = g2 + avg_cancer_risk * (- 4.0)
         in bind_err (average (dict_values (neurodegenerative rf))) (\<lambda>avg_neuro_risk.
            Inr (g3 + avg_neuro_risk * (- 3.0)))))"

definition bio_age_adj :: "user_profile \<Rightarrow> impedance_data \<Rightarrow> real" where
  "bio_age_adj p imp = (age p - estimated_biological_age imp) * 1.5"

record life_expectancy_prediction =
  le_user_id :: string
  current_age :: real
  le_gender :: string
  base_life_expectancy :: real
  predicted_life_expectancy :: real
  confidence_interval :: "real \<times> real"
  expected_remaining_years :: real
  factors :: "(string \<times> real) list"
  predicted_at :: timestamp

text \<open>
  The body of \<^verbatim>\<open>predict_life_expectancy\<close>, in the order of the source: the five
  sections, the twelve adjustments appended to \<^verbatim>\<open>adjustments\<close> one after the other, the
  total, and the result dictionary (whose first entry reads \<^verbatim>\<open>user_id\<close>).
\<close>

definition predict_life_expectancy ::
    "timestamp \<Rightarrow> user_data \<Rightarrow> error + life_expectancy_prediction" where
  "predict_life_expectancy now ud =
     bind_err (getitem ''user_profile'' (user_profile ud)) (\<lambda>p.
     bind_err (getitem ''health_metrics'' (health_metrics ud)) (\<lambda>hm.
     bind_err (getitem ''impedance_data'' (impedance_data ud)) (\<lambda>imp.
     bind_err (getitem ''lifestyle_data'' (lifestyle_data ud)) (\<lambda>ls.
     bind_err (getitem ''genetic_data'' (genetic_data ud)) (\<lambda>g.
     let a1 = [] @ [(''Smoking'', smoking_adj p)];
         a2 = a1 @ [(''BMI'', bmi_adj p)];
         a3 = a2 @ [(''Blood Pressure'', bp_adj hm)]
     in bind_err (chol_adj hm) (\<lambda>chol.
     let a4 = a3 @ [(''Cholesterol'', chol)];
         a5 = a4 @ [(''Exercise'', exercise_adj ls)];
         a6 = a5 @ [(''Diet'', diet_adj ls)];
         a7 = a6 @ [(''Sleep'', sleep_adj ls)];
         a8 = a7 @ [(''Alcohol'', alcohol_adj p)];
         a9 = a8 @ [(''Stress'', stress_adj ls)];
         a10 = a9 @ [(''Social Connection'', social_adj ls)]
     in bind_err (genetic_adj g) (\<lambda>genetic.
     let a11 = a10 @ [(''Genetic Factors'', genetic)];
         adjustments = a11 @ [(''Biological Age'', bio_age_adj p imp)];
         total_adjustment = sum_list (map snd adjustments);
         life_expectancy = base_expectancy p + total_adjustment;
         remaining_years = life_expectancy - age p;
         uncertainty = 4.2
     in bind_err (getitem ''user_id'' (user_id p)) (\<lambda>uid.
        Inr \<lparr>le_user_id = uid,
             current_age = age p,
             le_gender = gender p,
             base_life_expectancy = base_expectancy p,
             predicted_life_expectancy = py_round life_expectancy 1,
             confidence_interval =
               (py_round (life_expectancy - uncertainty) 1,
                py_round (life_expectancy + uncertainty) 1),
             expected_remaining_years = py_round remaining_years 1,
             factors = adjustments,
             predicted_at = now\<rparr>))))))))"

section \<open>Risk categories: \<^verbatim>\<open>LifePredictor._categorize_risk\<close>\<close>

definition categorize_risk :: "real \<Rightarrow> string" where
  "categorize_risk risk_level =
     (if risk_level < 0.15 then ''Low''
      else if risk_level < 0.35 then ''Moderate''
      else if risk_level < 0.60 then ''High''
      else ''Very High'')"

section \<open>Biological age: \<^verbatim>\<open>LifePredictor.calculate_biological_age\<close>\<close>

definition bp_age_factor :: "health_metrics \<Rightarrow> real" where
  "bp_age_factor hm =
     (let sys = systolic (blood_pressure hm); dia = diastolic (blood_pressure hm)
      in if sys \<le> 120 \<and> dia \<le> 80 then - 5
         else if sys \<le> 130 \<and> dia \<le> 85 then 0
         else if sys \<le> 140 \<and> dia \<le> 90 then 5
         else 10)"

definition hr_age_factor :: "health_metrics \<Rightarrow> real" where
  "hr_age_factor hm =
     (let heart_rate = resting_heart_rate hm
      in if heart_rate < 60 then - 5
         else if heart_rate \<le> 70 then - 2
         else if heart_rate \<le> 80 then 0
         else if heart_rate \<le> 90 then 3
         else 7)"

definition chol_age_factor :: "real \<Rightarrow> real" where
  "chol_age_factor chol_ratio =
     (if chol_ratio < 3.5 then - 3
      else if chol_ratio < 4.5 then 0
      else if chol_ratio < 5.5 then 3
      else 7)"

definition glucose_age_factor :: "health_metrics \<Rightarrow> real" where
  "glucose_age_factor hm =
     (let glucose = fasting_glucose hm
      in if glucose < 90 then - 3
         else if glucose \<le> 100 then 0
         else if glucose \<le> 110 then 2
         else if glucose \<le> 125 then 5
         else 10)"

definition hba1c_age_factor :: "health_metrics \<Rightarrow> real" where
  "hba1c_age_factor hm =
     (if hba1c hm < 5.0 then - 3
      else if hba1c hm \<le> 5.6 then 0
      else if hba1c hm \<le> 6.0 then 2
      else if hba1c hm \<le> 6.4 then 5
      else 10)"

definition bmi_age_factor :: "user_profile \<Rightarrow> real" where
  "bmi_age_factor p =
     (if 18.5 \<le> bmi p \<and> bmi p \<le> 24.9 then - 2
      else if 25.0 \<le> bmi p \<and> bmi p \<le> 29.9 then 1
      else if bmi p \<ge> 30 then 5
      else 0)"

definition vo2_ref :: "user_profile \<Rightarrow> real" where
  "vo2_ref p =
     (let chronological = age p
      in if lower (gender p) = ''male''
         then (if chronological < 30 then 45
               else if chronological < 40 then 42
               else if chronological < 50 then 38
               else if chronological < 60 then 35
               else 32)
         else (if chronological < 30 then 38
               else if chronological < 40 then 35
               else if chronological < 50 then 32
               else if chronological < 60 then 29
               else 26))"

definition fitness_age_factor :: "user_profile \<Rightarrow> health_metrics \<Rightarrow> real" where
  "fitness_age_factor p hm = (let vo2_diff = vo2_max hm - vo2_ref p in - vo2_diff / 2)"

definition exercise_age_factor :: "lifestyle_data \<Rightarrow> real" where
  "exercise_age_factor ls =
     (let exercise_minutes = minutes_per_week (exercise ls)
      in if exercise_minutes \<ge> 300 then - 4
         else if exercise_minutes \<ge> 150 then - 2
         else if exercise_minutes \<ge> 60 then 0
         else 3)"

definition sleep_age_factor :: "lifestyle_data \<Rightarrow> real" where
  "sleep_age_factor ls =
     (let sleep_hours = average_hours (sleep ls); sleep_quality = lower (quality (sleep ls))
      in if sleep_hours \<ge> 7 \<and> sleep_quality \<in> set [''good'', ''excellent''] then - 3
         else if sleep_hours \<ge> 6.5 \<and> sleep_quality \<in> set [''fair'', ''good'', ''excellent'']
         then - 1
         else if sleep_hours < 6 \<or> sleep_quality = ''poor'' then 3
         else 0)"

definition diet_age_factor :: "lifestyle_data \<Rightarrow> real" where
  "diet_age_factor ls =
     (let dtype = lower (diet_type (diet ls));
          fruit_veg = fruit_veg_servings_daily (diet ls);
          processed_food = lower (processed_food_frequency (diet ls));
          f0 = 0;
          f1 = (if dtype \<in> set [''mediterranean'', ''vegetarian'', ''vegan''] then f0 - 2 else f0);
          f2 = (if fruit_veg \<ge> 5 then f1 - 2
                else if fruit_veg \<ge> 3 then f1 - 1
                else if fruit_veg < 1 then f1 + 2
                else f1)
      in if processed_food = ''rarely'' then f2 - 1
         else if processed_food = ''very frequently'' then f2 + 2
         else f2)"

definition stress_age_factor :: "lifestyle_data \<Rightarrow> real" where
  "stress_age_factor ls =
     (let stress = lower (stress_level ls)
      in if stress = ''low'' then - 2
         else if stress = ''moderate'' then 0
         else if stress = ''high'' then 2
         else 4)"

text \<open>\<^verbatim>\<open>sum(fs) / len(fs)\<close> on a list the code has just filled: its length is not zero.\<close>

definition mean :: "real list \<Rightarrow> real" where
  "mean fs = sum_list fs / of_nat (length fs)"

record biological_age_result =
  ba_user_id :: string
  ba_chronological_age :: real
  biological_age :: real
  age_difference :: real
  ba_impedance_based :: "real \<times> real"
  ba_cardiovascular :: "real \<times> real"
  ba_metabolic :: "real \<times> real"
  ba_fitness :: "real \<times> real"
  ba_lifestyle :: "real \<times> real"
  calculated_at :: timestamp

text \<open>
  The unrounded biological age of the source: the chronological age, the impedance age
  minus the chronological age, the four domain means, and the floor at 20.
\<close>

definition biological_age_raw ::
    "user_profile \<Rightarrow> health_metrics \<Rightarrow> impedance_data \<Rightarrow> lifestyle_data \<Rightarrow> real \<Rightarrow> real" where
  "biological_age_raw p hm imp ls chol_ratio =
     (let chronological = age p;
          impedance_age = estimated_biological_age imp;
          cv_age_adjustment = mean [bp_age_factor hm, hr_age_factor hm, chol_age_factor chol_ratio];
          metabolic_age_adjustment =
            mean [glucose_age_factor hm, hba1c_age_factor hm, bmi_age_factor p];
          fitness_age_adjustment = mean [fitness_age_factor p hm, exercise_age_factor ls];
          lifestyle_age_adjustment =
            mean [sleep_age_factor ls, diet_age_factor ls, stress_age_factor ls];
          b0 = chronological;
          b1 = b0 + (impedance_age - chronological);
          b2 = b1 + cv_age_adjustment;
          b3 = b2 + metabolic_age_adjustment;
          b4 = b3 + fitness_age_adjustment;
          b5 = b4 + lifestyle_age_adjustment
      in max 20 b5)"

definition calculate_biological_age ::
    "timestamp \<Rightarrow> user_data \<Rightarrow> error + biological_age_result" where
  "calculate_biological_age now ud =
     bind_err (getitem ''user_profile'' (user_profile ud)) (\<lambda>p.
     bind_err (getitem ''health_metrics'' (health_metrics ud)) (\<lambda>hm.
     bind_err (getitem ''impedance_data'' (impedance_data ud)) (\<lambda>imp.
     bind_err (getitem ''lifestyle_data'' (lifestyle_data ud)) (\<lambda>ls.
     bind_err (py_div (total_chol (cholesterol hm)) (hdl (cholesterol hm))) (\<lambda>chol_ratio.
     let bio = biological_age_raw p hm imp ls chol_ratio
     in bind_err (getitem ''user_id'' (user_id p)) (\<lambda>uid.
        Inr \<lparr>ba_user_id = uid,
             ba_chronological_age = age p,
             biological_age = py_round bio 1,
             age_difference = py_round (bio - age p) 1,
             ba_impedance_based = (py_round (estimated_biological_age imp) 1, 0.4),
             ba_cardiovascular =
               (py_round (mean [bp_age_factor hm, hr_age_factor hm, chol_age_factor chol_ratio]) 1,
                0.2),
             ba_metabolic =
               (py_round (mean [glucose_age_factor hm, hba1c_age_factor hm, bmi_age_factor p]) 1,
                0.2),
             ba_fitness =
               (py_round (mean [fitness_age_factor p hm, exercise_age_factor ls]) 1, 0.1),
             ba_lifestyle =
               (py_round (mean [sleep_age_factor ls, diet_age_factor ls, stress_age_factor ls]) 1,
                0.1),
             calculated_at = now\<rparr>))))))"

section \<open>Disease risks: \<^verbatim>\<open>LifePredictor.calculate_health_risks\<close>\<close>

definition bp_risk_factor :: "health_metrics \<Rightarrow> real" where
  "bp_risk_factor hm =
     (let sys = systolic (blood_pressure hm); dia = diastolic (blood_pressure hm)
      in if sys > 140 \<or> dia > 90 then 0.3
         else if sys > 130 \<or> dia > 85 then 0.2
         else if sys > 120 \<or> dia > 80 then 0.1
         else 0.0)"

definition chol_risk_factor :: "real \<Rightarrow> real" where
  "chol_risk_factor chol_ratio =
     (if chol_ratio > 5.0 then 0.3
      else if chol_ratio > 4.0 then 0.2
      else if chol_ratio > 3.5 then 0.1
      else 0.0)"

definition smoking_risk_factor_cv :: "user_profile \<Rightarrow> real" where
  "smoking_risk_factor_cv p =
     (let status = lower (smoking_status p)
      in if status = ''current'' then 0.4 else if status = ''former'' then 0.1 else 0.0)"

text \<open>The exercise factor of the cardiovascular, metabolic and neurological risks.\<close>

definition exercise_risk_factor :: "lifestyle_data \<Rightarrow> real" where
  "exercise_risk_factor ls =
     (let exercise_minutes = minutes_per_week (exercise ls)
      in if exercise_minutes < 30 then 0.2 else if exercise_minutes < 90 then 0.1 else 0.0)"

definition bmi_risk_factor_cv :: "user_profile \<Rightarrow> real" where
  "bmi_risk_factor_cv p = (if bmi p > 30 then 0.2 else if bmi p > 25 then 0.1 else 0.0)"

definition glucose_risk_factor :: "health_metrics \<Rightarrow> real" where
  "glucose_risk_factor hm =
     (if fasting_glucose hm > 125 \<or> hba1c hm > 6.4 then 0.5
      else if fasting_glucose hm > 100 \<or> hba1c hm > 5.7 then 0.3
      else 0.0)"

definition bmi_risk_factor_metabolic :: "user_profile \<Rightarrow> real" where
  "bmi_risk_factor_metabolic p = (if bmi p > 30 then 0.3 else if bmi p > 25 then 0.2 else 0.0)"

definition diet_risk_factor_metabolic :: "lifestyle_data \<Rightarrow> real" where
  "diet_risk_factor_metabolic ls =
     (let processed_food = lower (processed_food_frequency (diet ls));
          d0 = 0.0;
          d1 = (if processed_food = ''very frequently'' then d0 + 0.2
                else if processed_food = ''often'' then d0 + 0.1
                else d0)
      in if fruit_veg_servings_daily (diet ls) < 2 then d1 + 0.1 else d1)"

definition sleep_risk_factor :: "lifestyle_data \<Rightarrow> real" where
  "sleep_risk_factor ls =
     (let sleep_hours = average_hours (sleep ls);
          s0 = 0.0;
          s1 = (if sleep_hours < 6 then s0 + 0.2 else if sleep_hours < 7 then s0 + 0.1 else s0)
      in if lower (quality (sleep ls)) = ''poor'' then s1 + 0.1 else s1)"

definition stress_risk_factor :: "lifestyle_data \<Rightarrow> real" where
  "stress_risk_factor ls =
     (let stress = lower (stress_level ls)
      in if stress = ''very high'' then 0.3
         else if stress = ''high'' then 0.2
         else if stress = ''moderate'' then 0.1
         else 0.0)"

text \<open>The neurological diet factor before \<^verbatim>\<open>max(0, ...)\<close> is taken.\<close>

definition diet_risk_factor_neuro :: "lifestyle_data \<Rightarrow> real" where
  "diet_risk_factor_neuro ls =
     (let d0 = (if lower (diet_type (diet ls)) = ''mediterranean'' then - 0.1 else 0.0)
      in if fruit_veg_servings_daily (diet ls) < 3 then d0 + 0.1 else d0)"

definition smoking_risk_factor_cancer :: "user_profile \<Rightarrow> real" where
  "smoking_risk_factor_cancer p =
     (let status = lower (smoking_status p)
      in if status = ''current'' then 0.3 else if status = ''former'' then 0.1 else 0.0)"

definition exercise_risk_factor_cancer :: "lifestyle_data \<Rightarrow> real" where
  "exercise_risk_factor_cancer ls = (if minutes_per_week (exercise ls) < 30 then 0.1 else 0.0)"

definition diet_risk_factor_cancer :: "lifestyle_data \<Rightarrow> real" where
  "diet_risk_factor_cancer ls = (if fruit_veg_servings_daily (diet ls) < 2 then 0.1 else 0.0)"

record risk_entry =
  risk_level :: real
  category :: string
  risk_entry_factors :: "(string \<times> real) list"

record risks =
  risk_cardiovascular :: risk_entry
  risk_metabolic :: risk_entry
  risk_neurological :: risk_entry
  risk_cancer :: risk_entry

record risk_assessment =
  ra_user_id :: string
  ra_risks :: risks
  assessed_at :: timestamp

text \<open>
  The source keeps one variable per factor name and assigns it again for the next disease,
  so the factor breakdowns of the result, which are built last, show the values of the
  last assignment (\<^verbatim>\<open>smoking\<close>, \<^verbatim>\<open>exercise\<close> and \<^verbatim>\<open>diet\<close> of the cancer risk,
  \<^verbatim>\<open>bmi\<close> of the metabolic risk).
\<close>

definition calculate_health_risks :: "timestamp \<Rightarrow> user_data \<Rightarrow> error + risk_assessment" where
  "calculate_health_risks now ud =
     bind_err (getitem ''user_profile'' (user_profile ud)) (\<lambda>p.
     bind_err (getitem ''health_metrics'' (health_metrics ud)) (\<lambda>hm.
     bind_err (getitem ''genetic_data'' (genetic_data ud)) (\<lambda>g.
     bind_err (getitem ''lifestyle_data'' (lifestyle_data ud)) (\<lambda>ls.
     let cardiovascular_genetic_risk = cardiovascular_disease (risk_factors g);
         diabetes_genetic_risk = type_2_diabetes (risk_factors g);
         cancer_genetic_risks = cancer (risk_factors g);
         neurodegenerative_risks = neurodegenerative (risk_factors g)
     in bind_err (py_div (total_chol (cholesterol hm)) (hdl (cholesterol hm))) (\<lambda>chol_ratio.
     let cv_risk_factors =
           [cardiovascular_genetic_risk, bp_risk_factor hm, chol_risk_factor chol_ratio,
            smoking_risk_factor_cv p, exercise_risk_factor ls, bmi_risk_factor_cv p];
         cardiovascular_risk = min 1.0 (mean cv_risk_factors);
         metabolic_risk_factors =
           [diabetes_genetic_risk, glucose_risk_factor hm, bmi_risk_factor_metabolic p,
            exercise_risk_factor ls, diet_risk_factor_metabolic ls];
         metabolic_risk = min 1.0 (mean metabolic_risk_factors)
     in bind_err (dict_getitem neurodegenerative_risks ''alzheimers'') (\<lambda>alzheimers.
        bind_err (dict_getitem neurodegenerative_risks ''parkinsons'') (\<lambda>parkinsons.
     let neuro_genetic_risk = (alzheimers + parkinsons) / 2;
         neuro_risk_factors =
           [neuro_genetic_risk, sleep_risk_factor ls, stress_risk_factor ls,
            exercise_risk_factor ls, max 0 (diet_risk_factor_neuro ls)];
         neurological_risk = min 1.0 (mean neuro_risk_factors)
     in bind_err (average (dict_values cancer_genetic_risks)) (\<lambda>avg_cancer_genetic_risk.
     let cancer_risk_factors =
           [avg_cancer_genetic_risk, smoking_risk_factor_cancer p,
            exercise_risk_factor_cancer ls, diet_risk_factor_cancer ls];
         cancer_risk = min 1.0 (mean cancer_risk_factors);
         smoking_last = py_round (smoking_risk_factor_cancer p) 2;
         exercise_last = py_round (exercise_risk_factor_cancer ls) 2;
         bmi_last = py_round (bmi_risk_factor_metabolic p) 2;
         diet_last = py_round (diet_risk_factor_cancer ls) 2
     in bind_err (getitem ''user_id'' (user_id p)) (\<lambda>uid.
        Inr \<lparr>ra_user_id = uid,
             ra_risks =
               \<lparr>risk_cardiovascular =
                  \<lparr>risk_level = py_round cardiovascular_risk 2,
                   category = categorize_risk cardiovascular_risk,
                   risk_entry_factors =
                     [(''genetic'', py_round cardiovascular_genetic_risk 2),
                      (''blood_pressure'', py_round (bp_risk_factor hm) 2),
                      (''cholesterol'', py_round (chol_risk_factor chol_ratio) 2),
                      (''smoking'', smoking_last),
                      (''exercise'', exercise_last),
                      (''bmi'', bmi_last)]\<rparr>,
                risk_metabolic =
                  \<lparr>risk_level = py_round metabolic_risk 2,
                   category = categorize_risk metabolic_risk,
                   risk_entry_factors =
                     [(''genetic'', py_round diabetes_genetic_risk 2),
                      (''glucose'', py_round (glucose_risk_factor hm) 2),
                      (''bmi'', bmi_last),
                      (''exercise'', exercise_last),
                      (''diet'', diet_last)]\<rparr>,
                risk_neurological =
                  \<lparr>risk_level = py_round neurological_risk 2,
                   category = categorize_risk neurological_risk,
                   risk_entry_factors =
                     [(''genetic'', py_round neuro_genetic_risk 2),
                      (''sleep'', py_round (sleep_risk_factor ls) 2),
                      (''stress'', py_round (stress_risk_factor ls) 2),
                      (''exercise'', exercise_last),
                      (''diet'', diet_last)]\<rparr>,
                risk_cancer =
                  \<lparr>risk_level = py_round cancer_risk 2,
                   category = categorize_risk cancer_risk,
                   risk_entry_factors =
                     [(''genetic'', py_round avg_cancer_genetic_risk 2),
                      (''smoking'', smoking_last),
                      (''exercise'', exercise_last),
                      (''diet'', diet_last)]\<rparr>\<rparr>,
             assessed_at = now\<rparr>)))))))))"

section \<open>Recommendations: \<^verbatim>\<open>LifePredictor.generate_recommendations\<close>\<close>

record recommendation_entry =
  priority :: string
  recommendation :: string
  impact :: string

text \<open>The seventeen dictionaries the source appends, in the order of their appearance.\<close>

definition rec_exercise_start :: recommendation_entry where
  "rec_exercise_start =
     \<lparr>priority = ''High'',
      recommendation =
        ''Start with 10 minutes of moderate activity daily, gradually increasing '' @
        ''to at least 30 minutes per day, 5 days per week.'',
      impact =
        ''Essential for cardiovascular health, metabolic health, and longevity''\<rparr>"

definition rec_exercise_increase :: recommendation_entry where
  "rec_exercise_increase =
     \<lparr>priority = ''Medium'',
      recommendation =
        ''Increase physical activity to reach at least 150 minutes of moderate '' @
        ''exercise per week.'',
      impact =
        ''Can reduce cardiovascular and metabolic disease risk by 20-30%''\<rparr>"

definition rec_exercise_maintain :: recommendation_entry where
  "rec_exercise_maintain =
     \<lparr>priority = ''Low'',
      recommendation =
        ''Maintain current exercise levels and consider adding strength training '' @
        ''if not already included.'',
      impact =
        ''Helps maintain muscle mass and metabolic health with aging''\<rparr>"

definition rec_exercise_aerobic :: recommendation_entry where
  "rec_exercise_aerobic =
     \<lparr>priority = ''High'',
      recommendation =
        ''Include aerobic exercises like brisk walking, swimming, or cycling at '' @
        ''least 3 times per week.'',
      impact =
        ''Can significantly improve heart health and lower resting heart rate''\<rparr>"

definition rec_exercise_resistance :: recommendation_entry where
  "rec_exercise_resistance =
     \<lparr>priority = ''Medium'',
      recommendation =
        ''Add resistance training exercises 2-3 times per week to maintain '' @
        ''muscle mass and bone density.'',
      impact =
        ''Critical for maintaining functional independence with age''\<rparr>"

definition rec_nutrition_fruit_veg :: recommendation_entry where
  "rec_nutrition_fruit_veg =
     \<lparr>priority = ''High'',
      recommendation =
        ''Increase fruit and vegetable intake to at least 5 servings per day.'',
      impact =
        ''Associated with reduced risk of cardiovascular disease, cancer, and '' @
        ''all-cause mortality''\<rparr>"

definition rec_nutrition_processed :: recommendation_entry where
  "rec_nutrition_processed =
     \<lparr>priority = ''High'',
      recommendation =
        ''Reduce consumption of processed foods, especially those high in added '' @
        ''sugars and unhealthy fats.'',
      impact =
        ''Can significantly improve metabolic health and reduce inflammation''\<rparr>"

definition rec_nutrition_mediterranean :: recommendation_entry where
  "rec_nutrition_mediterranean =
     \<lparr>priority = ''Medium'',
      recommendation =
        ''Consider adopting a Mediterranean diet pattern rich in olive oil, '' @
        ''nuts, fish, and whole grains.'',
      impact =
        ''Strong evidence for reducing cardiovascular disease risk and certain '' @
        ''cancers''\<rparr>"

definition rec_sleep_hours :: recommendation_entry where
  "rec_sleep_hours =
     \<lparr>priority = ''High'',
      recommendation =
        ''Aim for 7-8 hours of quality sleep per night by establishing a regular '' @
        ''sleep schedule and optimizing your sleep environment.'',
      impact =
        ''Critical for cognitive function, immune health, and metabolic '' @
        ''regulation''\<rparr>"

definition rec_sleep_hygiene :: recommendation_entry where
  "rec_sleep_hygiene =
     \<lparr>priority = ''Medium'',
      recommendation =
        ''Implement good sleep hygiene practices: limit screen time before bed, '' @
        ''keep bedroom cool and dark, avoid caffeine after noon.'',
      impact =
        ''Can significantly improve sleep onset and quality''\<rparr>"

definition rec_stress_practice :: recommendation_entry where
  "rec_stress_practice =
     \<lparr>priority = ''High'',
      recommendation =
        ''Incorporate daily stress reduction practices such as meditation, deep '' @
        ''breathing, or mindfulness for at least 10-15 minutes.'',
      impact =
        ''Reduces stress hormones and improves cardiovascular and immune '' @
        ''function''\<rparr>"

definition rec_stress_limit :: recommendation_entry where
  "rec_stress_limit =
     \<lparr>priority = ''Medium'',
      recommendation =
        ''Consider limiting exposure to stressors, including reducing news '' @
        ''consumption and setting boundaries on work hours.'',
      impact =
        ''Helps manage chronic stress that contributes to premature aging''\<rparr>"

definition rec_monitoring_checkup :: recommendation_entry where
  "rec_monitoring_checkup =
     \<lparr>priority = ''Medium'',
      recommendation =
        ''Schedule annual comprehensive health check-ups including '' @
        ''cardiovascular assessment and appropriate cancer screenings.'',
      impact =
        ''Early detection significantly improves treatment outcomes''\<rparr>"

definition rec_monitoring_glucose :: recommendation_entry where
  "rec_monitoring_glucose =
     \<lparr>priority = ''High'',
      recommendation =
        ''Monitor blood glucose levels regularly and get HbA1c tested every 6 '' @
        ''months.'',
      impact =
        ''Helps detect prediabetes early when lifestyle interventions are most '' @
        ''effective''\<rparr>"

definition rec_monitoring_bp :: recommendation_entry where
  "rec_monitoring_bp =
     \<lparr>priority = ''High'',
      recommendation =
        ''Track blood pressure weekly and work with healthcare provider to '' @
        ''develop a management plan.'',
      impact =
        ''Reduces risk of stroke, heart disease, and kidney problems''\<rparr>"

definition rec_lifestyle_quit_smoking :: recommendation_entry where
  "rec_lifestyle_quit_smoking =
     \<lparr>priority = ''Very High'',
      recommendation =
        ''Quit smoking with appropriate cessation support such as counseling, '' @
        ''nicotine replacement, or medications.'',
      impact =
        ''Single most effective action to improve health and longevity, adding '' @
        ''up to 10 years of life''\<rparr>"

definition rec_lifestyle_alcohol :: recommendation_entry where
  "rec_lifestyle_alcohol =
     \<lparr>priority = ''High'',
      recommendation =
        ''Reduce alcohol consumption to no more than 1 drink per day for women '' @
        ''or 2 drinks per day for men.'',
      impact =
        ''Reduces risk of liver disease, cancer, and cardiovascular problems''\<rparr>"

definition high_or_very_high :: "string \<Rightarrow> bool" where
  "high_or_very_high c = (c \<in> set [''High'', ''Very High''])"

definition exercise_recommendations ::
    "user_profile \<Rightarrow> health_metrics \<Rightarrow> lifestyle_data \<Rightarrow> string \<Rightarrow> recommendation_entry list" where
  "exercise_recommendations p hm ls cardiovascular_risk =
     (let e0 = [];
          e1 = (if minutes_per_week (exercise ls) < 30 then e0 @ [rec_exercise_start]
                else if minutes_per_week (exercise ls) < 150 then e0 @ [rec_exercise_increase]
                else e0 @ [rec_exercise_maintain]);
          e2 = (if high_or_very_high cardiovascular_risk \<or> resting_heart_rate hm > 80
                then e1 @ [rec_exercise_aerobic] else e1)
      in if age p > 50 \<or> ''weight training'' \<notin> set (map lower (types (exercise ls)))
         then e2 @ [rec_exercise_resistance] else e2)"

definition nutrition_recommendations ::
    "lifestyle_data \<Rightarrow> string \<Rightarrow> string \<Rightarrow> recommendation_entry list" where
  "nutrition_recommendations ls cardiovascular_risk cancer_risk =
     (let n0 = [];
          n1 = (if fruit_veg_servings_daily (diet ls) < 3
                then n0 @ [rec_nutrition_fruit_veg] else n0);
          n2 = (if processed_food_frequency (diet ls) \<in> set [''often'', ''very frequently'']
                then n1 @ [rec_nutrition_processed] else n1)
      in if lower (diet_type (diet ls)) \<noteq> ''mediterranean'' \<and>
            (high_or_very_high cardiovascular_risk \<or> high_or_very_high cancer_risk)
         then n2 @ [rec_nutrition_mediterranean] else n2)"

definition sleep_recommendations :: "lifestyle_data \<Rightarrow> recommendation_entry list" where
  "sleep_recommendations ls =
     (if average_hours (sleep ls) < 7 \<or> lower (quality (sleep ls)) \<in> set [''poor'', ''fair'']
      then (let s1 = [] @ [rec_sleep_hours]
            in if lower (quality (sleep ls)) = ''poor'' then s1 @ [rec_sleep_hygiene] else s1)
      else [])"

definition stress_recommendations :: "lifestyle_data \<Rightarrow> recommendation_entry list" where
  "stress_recommendations ls =
     (if lower (stress_level ls) \<in> set [''high'', ''very high'']
      then ([] @ [rec_stress_practice]) @ [rec_stress_limit]
      else [])"

definition monitoring_recommendations ::
    "user_profile \<Rightarrow> health_metrics \<Rightarrow> string \<Rightarrow> recommendation_entry list" where
  "monitoring_recommendations p hm metabolic_risk =
     (let m0 = [];
          m1 = (if age p > 40 then m0 @ [rec_monitoring_checkup] else m0);
          m2 = (if bmi p > 30 \<or> high_or_very_high metabolic_risk
                then m1 @ [rec_monitoring_glucose] else m1)
      in if systolic (blood_pressure hm) > 130 \<or> diastolic (blood_pressure hm) > 85
         then m2 @ [rec_monitoring_bp] else m2)"

definition lifestyle_recommendations :: "user_profile \<Rightarrow> recommendation_entry list" where
  "lifestyle_recommendations p =
     (let l0 = [];
          l1 = (if lower (smoking_status p) = ''current''
                then l0 @ [rec_lifestyle_quit_smoking] else l0)
      in if lower (alcohol_frequency p) = ''frequent''
         then l1 @ [rec_lifestyle_alcohol] else l1)"

text \<open>
  \<^verbatim>\<open>recommendations\<close> is a dictionary of six lists; a Python dictionary keeps the order
  in which its keys were inserted, so it is an association list in the order of the
  literal.
\<close>

type_synonym recommendations = "(string \<times> recommendation_entry list) list"

record priority_entry =
  hp_category :: string
  hp_recommendation :: string
  hp_priority :: string
  hp_impact :: string

text \<open>
  \<^verbatim>\<open>_extract_high_priority_recommendations\<close>: the two nested loops append to
  \<^verbatim>\<open>high_priority\<close>; \<^verbatim>\<open>list.sort(key=...)\<close> is a stable sort, and a stable sort by a key
  is one function of the list, here \<open>sort_key\<close>.
\<close>

definition priority_key :: "priority_entry \<Rightarrow> nat" where
  "priority_key x = (if hp_priority x = ''Very High'' then 0 else 1)"

definition extract_high_priority_recommendations :: "recommendations \<Rightarrow> priority_entry list" where
  "extract_high_priority_recommendations recs =
     (let high_priority =
            fold (\<lambda>(cat, rs) acc.
                    fold (\<lambda>r acc'.
                            if priority r \<in> set [''High'', ''Very High'']
                            then acc' @ [\<lparr>hp_category = cat,
                                         hp_recommendation = recommendation r,
                                         hp_priority = priority r,
                                         hp_impact = impact r\<rparr>]
                            else acc')
                         rs acc)
                 recs []
      in sort_key priority_key high_priority)"

record impact_estimate =
  current_life_expectancy :: real
  potential_life_expectancy :: real
  potential_years_gained :: real
  impact_note :: string

text \<open>\<^verbatim>\<open>_estimate_impact_on_life_expectancy\<close>: the count is a sum of ones.\<close>

definition high_priority_count :: "recommendations \<Rightarrow> nat" where
  "high_priority_count recs =
     sum_list (map (\<lambda>r. 1)
       (filter (\<lambda>r. priority r \<in> set [''High'', ''Very High'']) (concat (dict_values recs))))"

definition estimate_impact_on_life_expectancy ::
    "recommendations \<Rightarrow> life_expectancy_prediction \<Rightarrow> impact_estimate" where
  "estimate_impact_on_life_expectancy recs predictions =
     (let gained = min (of_nat (high_priority_count recs) * 0.8) 8.0;
          current = predicted_life_expectancy predictions;
          potential = current + gained
      in \<lparr>current_life_expectancy = current,
          potential_life_expectancy = py_round potential 1,
          potential_years_gained = py_round gained 1,
          impact_note =
            ''Estimated impact if all high priority recommendations are followed consistently''\<rparr>)"

record recommendations_result =
  rec_user_id :: string
  recommendations :: recommendations
  top_priorities :: "priority_entry list"
  potential_impact :: impact_estimate
  generated_at :: timestamp

definition build_recommendations ::
    "user_profile \<Rightarrow> health_metrics \<Rightarrow> lifestyle_data \<Rightarrow> risk_assessment \<Rightarrow> recommendations" where
  "build_recommendations p hm ls risks =
     (let cardiovascular_risk = category (risk_cardiovascular (ra_risks risks));
          metabolic_risk = category (risk_metabolic (ra_risks risks));
          cancer_risk = category (risk_cancer (ra_risks risks))
      in [(''exercise'', exercise_recommendations p hm ls cardiovascular_risk),
          (''nutrition'', nutrition_recommendations ls cardiovascular_risk cancer_risk),
          (''sleep'', sleep_recommendations ls),
          (''stress_management'', stress_recommendations ls),
          (''health_monitoring'', monitoring_recommendations p hm metabolic_risk),
          (''lifestyle'', lifestyle_recommendations p)])"

definition generate_recommendations ::
    "timestamp \<Rightarrow> user_data \<Rightarrow> life_expectancy_prediction \<Rightarrow> risk_assessment \<Rightarrow>
     error + recommendations_result" where
  "generate_recommendations now ud predictions risks =
     bind_err (getitem ''user_profile'' (user_profile ud)) (\<lambda>p.
     bind_err (getitem ''health_metrics'' (health_metrics ud)) (\<lambda>hm.
     bind_err (getitem ''lifestyle_data'' (lifestyle_data ud)) (\<lambda>ls.
     let recs = build_recommendations p hm ls risks
     in bind_err (getitem ''user_id'' (user_id p)) (\<lambda>uid.
        Inr \<lparr>rec_user_id = uid,
             recommendations = recs,
             top_priorities = extract_high_priority_recommendations recs,
             potential_impact = estimate_impact_on_life_expectancy recs predictions,
             generated_at = now\<rparr>))))"

section \<open>The orchestrator: \<^verbatim>\<open>LifePredictor.run_complete_analysis\<close>\<close>

text \<open>The readings of the clock, one for each call of \<^verbatim>\<open>datetime.now()\<close> in the source.\<close>

record clock =
  t_predicted :: timestamp
  t_calculated :: timestamp
  t_assessed :: timestamp
  t_generated :: timestamp
  t_completed :: timestamp
  t_attempted :: timestamp

record analysis_results =
  ar_user_id :: string
  life_expectancy :: life_expectancy_prediction
  ar_biological_age :: biological_age_result
  health_risks :: risk_assessment
  ar_recommendations :: recommendations_result
  ar_status :: string
  analysis_completed_at :: timestamp

record error_results =
  er_user_id :: string
  er_status :: string
  error_message :: string
  analysis_attempted_at :: timestamp

datatype analysis = Completed analysis_results | Failed error_results

fun status :: "analysis \<Rightarrow> string" where
  "status (Completed r) = ar_status r"
| "status (Failed r) = er_status r"

text \<open>The body of the \<^verbatim>\<open>try\<close> block.\<close>

definition try_analysis :: "clock \<Rightarrow> user_data \<Rightarrow> error + analysis_results" where
  "try_analysis clk ud =
     bind_err (predict_life_expectancy (t_predicted clk) ud) (\<lambda>le.
     bind_err (calculate_biological_age (t_calculated clk) ud) (\<lambda>ba.
     bind_err (calculate_health_risks (t_assessed clk) ud) (\<lambda>hr.
     bind_err (generate_recommendations (t_generated clk) ud le hr) (\<lambda>recs.
     bind_err (getitem ''user_profile'' (user_profile ud)) (\<lambda>p.
     bind_err (getitem ''user_id'' (user_id p)) (\<lambda>uid.
        Inr \<lparr>ar_user_id = uid,
             life_expectancy = le,
             ar_biological_age = ba,
             health_risks = hr,
             ar_recommendations = recs,
             ar_status = ''success'',
             analysis_completed_at = t_completed clk\<rparr>))))))"

text \<open>
  The \<^verbatim>\<open>except Exception as e\<close> block. Its first entry is
  \<^verbatim>\<open>user_data["user_profile"]["user_id"] if "user_profile" in user_data else "unknown"\<close>:
  the test is on the profile only, and the read of \<^verbatim>\<open>user_id\<close> inside the handler is
  not guarded, so a \<^verbatim>\<open>KeyError\<close> there leaves the function.
\<close>

definition handle_exception :: "clock \<Rightarrow> user_data \<Rightarrow> error \<Rightarrow> error + error_results" where
  "handle_exception clk ud e =
     bind_err (case user_profile ud of
                 Some p \<Rightarrow> getitem ''user_id'' (user_id p)
               | None \<Rightarrow> Inr ''unknown'') (\<lambda>uid.
        Inr \<lparr>er_user_id = uid,
             er_status = ''error'',
             error_message = str_exc e,
             analysis_attempted_at = t_attempted clk\<rparr>)"

definition run_complete_analysis :: "clock \<Rightarrow> user_data \<Rightarrow> error + analysis" where
  "run_complete_analysis clk ud =
     (case try_analysis clk ud of
        Inr res \<Rightarrow> Inr (Completed res)
      | Inl e \<Rightarrow> bind_err (handle_exception clk ud e) (\<lambda>r. Inr (Failed r)))"

section \<open>The quit-smoking mutator: \<^verbatim>\<open>SimulationRunner._apply_quit_smoking_scenario\<close>\<close>

text \<open>
  The five calls of \<^verbatim>\<open>random.uniform\<close>, in the order of the source. \<^verbatim>\<open>uniform(a, b)\<close>
  returns a value between \<open>a\<close> and \<open>b\<close>.
\<close>

record quit_smoking_draws =
  heart_rate_reduction :: real
  bp_systolic_reduction :: real
  bp_diastolic_reduction :: real
  vo2_increase :: real
  chol_improvement :: real

definition uniform :: "real \<Rightarrow> real \<Rightarrow> real \<Rightarrow> bool" where
  "uniform a b x = (a \<le> x \<and> x \<le> b)"

definition quit_smoking_draws_ok :: "quit_smoking_draws \<Rightarrow> bool" where
  "quit_smoking_draws_ok d =
     (uniform 5 12 (heart_rate_reduction d) \<and>
      uniform 5 12 (bp_systolic_reduction d) \<and>
      uniform 3 8 (bp_diastolic_reduction d) \<and>
      uniform 5 15 (vo2_increase d) \<and>
      uniform 0.05 0.10 (chol_improvement d))"

text \<open>
  The source changes the dictionary in place and returns nothing; the model returns the
  changed record. Where a section is missing the \<^verbatim>\<open>KeyError\<close> leaves the function, and
  the model returns the exception alone.
\<close>

definition apply_quit_smoking_scenario ::
    "quit_smoking_draws \<Rightarrow> user_data \<Rightarrow> error + user_data" where
  "apply_quit_smoking_scenario d ud =
     bind_err (getitem ''user_profile'' (user_profile ud)) (\<lambda>p.
     if lower (smoking_status p) \<noteq> ''current'' then Inr ud
     else
       let ud1 = ud\<lparr>user_profile := Some (p\<lparr>smoking_status := ''Former''\<rparr>)\<rparr>
       in bind_err (getitem ''health_metrics'' (health_metrics ud1)) (\<lambda>hm.
          let hm1 = hm\<lparr>resting_heart_rate :=
                         max 60 (resting_heart_rate hm - heart_rate_reduction d)\<rparr>;
              bp1 = (blood_pressure hm1)\<lparr>systolic :=
                         max 110 (systolic (blood_pressure hm1) - bp_systolic_reduction d)\<rparr>;
              bp2 = bp1\<lparr>diastolic := max 70 (diastolic bp1 - bp_diastolic_reduction d)\<rparr>;
              hm2 = hm1\<lparr>blood_pressure := bp2\<rparr>;
              hm3 = hm2\<lparr>vo2_max := vo2_max hm2 + vo2_increase d\<rparr>;
              c1 = (cholesterol hm3)\<lparr>total_chol :=
                         max 150 (total_chol (cholesterol hm3) * (1 - chol_improvement d))\<rparr>;
              c2 = c1\<lparr>ldl := max 70 (ldl c1 * (1 - chol_improvement d))\<rparr>;
              hm4 = hm3\<lparr>cholesterol := c2\<rparr>
          in Inr (ud1\<lparr>health_metrics := Some hm4\<rparr>)))"

section \<open>The generator: \<^verbatim>\<open>DataGenerator.generate_health_metrics\<close>\<close>

text \<open>
  \<^verbatim>\<open>np.random.normal(loc, scale)\<close> is \<open>loc + scale * z\<close> for a standard normal draw
  \<open>z\<close>, which can be any real number; \<^verbatim>\<open>random.uniform(0, 1)\<close> is the fitness level.
  The draws are listed in the order of the source.
\<close>

record health_metrics_draws =
  z_systolic :: real
  z_diastolic :: real
  u_fitness_level :: real
  z_heart_rate :: real
  z_cholesterol :: real
  z_hdl :: real
  z_triglycerides :: real
  z_glucose :: real
  z_hba1c :: real
  z_vo2max :: real
  z_body_fat :: real

definition normal :: "real \<Rightarrow> real \<Rightarrow> real \<Rightarrow> real" where
  "normal loc scale z = loc + scale * z"

definition health_metrics_draws_ok :: "health_metrics_draws \<Rightarrow> bool" where
  "health_metrics_draws_ok d = uniform 0 1 (u_fitness_level d)"

definition generate_health_metrics ::
    "health_metrics_draws \<Rightarrow> user_profile \<Rightarrow> error + health_metrics" where
  "generate_health_metrics d p =
     (let age_factor = max 0 (age p - 30) * 0.5;
          bmi_factor = max 0 (bmi p - 25);
          smoking_factor =
            (if smoking_status p = ''Current'' then 7
             else if smoking_status p = ''Former'' then 3 else 0);
          systolic_base = (if gender p = ''Female'' then 110 else 115);
          sys = of_int (round_half_even
                  (normal (systolic_base + age_factor + bmi_factor + smoking_factor) 8
                     (z_systolic d)));
          diastolic_base = (if gender p = ''Female'' then 70 else 75);
          dia = of_int (round_half_even
                  (normal (diastolic_base + age_factor / 2 + bmi_factor / 2 + smoking_factor / 2)
                     6 (z_diastolic d)));
          fitness_level = u_fitness_level d;
          heart_rate_base = 75 - fitness_level * 15;
          heart_rate = of_int (round_half_even (normal heart_rate_base 5 (z_heart_rate d)));
          chol_age_factor = max 0 (age p - 20) * 0.5;
          chol_bmi_factor = max 0 (bmi p - 25) * 2;
          chol = of_int (round_half_even
                   (normal (170 + chol_age_factor + chol_bmi_factor) 15 (z_cholesterol d)));
          hdl_base = (if gender p = ''Female'' then 50 else 40);
          hdl0 = of_int (round_half_even (normal hdl_base 8 (z_hdl d)));
          hdl1 = min hdl0 (chol - 50);
          ldl0 = chol - hdl1 - of_int (round_half_even (normal 30 5 (z_triglycerides d)));
          ldl1 = max ldl0 30;
          glucose_bmi_factor = max 0 (bmi p - 25) * 0.5;
          glucose = of_int (round_half_even (normal (85 + glucose_bmi_factor) 8 (z_glucose d)));
          hba = py_round (normal (5.0 + (glucose - 85) * 0.02) 0.3 (z_hba1c d)) 1;
          vo2max_age_factor = max 0 (age p - 20) * 0.3;
          vo2max_base = (if gender p = ''Male'' then 45 else 35);
          vo2max = py_round
                     (normal (vo2max_base - vo2max_age_factor + fitness_level * 15) 5 (z_vo2max d))
                     1;
          body_fat =
            (if gender p = ''Male''
             then py_round (normal (15 + max 0 (bmi p - 22) * 1.5) 3 (z_body_fat d)) 1
             else py_round (normal (25 + max 0 (bmi p - 22) * 1.3) 3 (z_body_fat d)) 1)
      in bind_err (getitem ''user_id'' (user_id p)) (\<lambda>uid.
         Inr \<lparr>blood_pressure = \<lparr>systolic = sys, diastolic = dia\<rparr>,
              resting_heart_rate = heart_rate,
              cholesterol = \<lparr>total_chol = chol, hdl = hdl1, ldl = ldl1\<rparr>,
              fasting_glucose = glucose,
              hba1c = hba,
              vo2_max = vo2max,
              body_fat_percentage = body_fat\<rparr>))"

section \<open>Example records\<close>

text \<open>
  A record of the documented shape, used to run the functions: a 50 year old smoker, the
  profile of the end-to-end scenario of the specification.
\<close>

definition example_profile :: user_profile where
  "example_profile =
     \<lparr>user_id = Some ''user_0001'', gender = ''Male'', age = 50, height_cm = 175,
      weight_kg = 95, bmi = 31, smoking_status = ''Current'', alcohol_frequency = ''Moderate'',
      family_history =
        \<lparr>fh_cardiovascular_disease = True, fh_diabetes = False, fh_cancer = False,
         fh_neurodegenerative_disease = False\<rparr>\<rparr>"

definition example_metrics :: health_metrics where
  "example_metrics =
     \<lparr>blood_pressure = \<lparr>systolic = 145, diastolic = 92\<rparr>,
      resting_heart_rate = 58,
      cholesterol = \<lparr>total_chol = 240, hdl = 35, ldl = 170\<rparr>,
      fasting_glucose = 110, hba1c = 6.1, vo2_max = 30, body_fat_percentage = 28\<rparr>"

definition example_impedance :: impedance_data where
  "example_impedance = \<lparr>chronological_age = 50, estimated_biological_age = 53.5\<rparr>"

definition example_lifestyle :: lifestyle_data where
  "example_lifestyle =
     \<lparr>exercise = \<lparr>frequency = ''Sedentary'', minutes_per_week = 20, types = [''Yoga'']\<rparr>,
      sleep = \<lparr>average_hours = 5.5, quality = ''Fair''\<rparr>,
      diet = \<lparr>diet_type = ''Standard'', fruit_veg_servings_daily = 2,
              processed_food_frequency = ''Often''\<rparr>,
      stress_level = ''High''\<rparr>"

definition example_genetic :: genetic_data where
  "example_genetic =
     \<lparr>risk_factors =
        \<lparr>cardiovascular_disease = 0.123, type_2_diabetes = 0.1,
         cancer = [(''colorectal'', 0.05), (''breast'', 0.001), (''prostate'', 0.07),
                   (''lung'', 0.04), (''skin'', 0.04)],
         neurodegenerative = [(''alzheimers'', 0.05), (''parkinsons'', 0.02)]\<rparr>\<rparr>"

definition example_user :: user_data where
  "example_user =
     \<lparr>user_profile = Some example_profile,
      health_metrics = Some example_metrics,
      impedance_data = Some example_impedance,
      lifestyle_data = Some example_lifestyle,
      genetic_data = Some example_genetic\<rparr>"

definition example_clock :: clock where
  "example_clock =
     \<lparr>t_predicted = ''2024-01-01T10:00:00.000001'',
      t_calculated = ''2024-01-01T10:00:00.000002'',
      t_assessed = ''2024-01-01T10:00:00.000003'',
      t_generated = ''2024-01-01T10:00:00.000004'',
      t_completed = ''2024-01-01T10:00:00.000005'',
      t_attempted = ''2024-01-01T10:00:00.000006''\<rparr>"

section \<open>The documented behaviour of the priority list\<close>

text \<open>
  The words of the specification for \<^verbatim>\<open>extract_high_priority\<close>: all categories are
  flattened, in the order of the dictionary and of each list, every entry tagged with its
  category.
\<close>

definition priority_entry_of :: "string \<Rightarrow> recommendation_entry \<Rightarrow> priority_entry" where
  "priority_entry_of cat r =
     \<lparr>hp_category = cat, hp_recommendation = recommendation r, hp_priority = priority r,
      hp_impact = impact r\<rparr>"

definition flatten_recommendations :: "recommendations \<Rightarrow> priority_entry list" where
  "flatten_recommendations recs =
     concat (map (\<lambda>(cat, rs). map (priority_entry_of cat) rs) recs)"

section \<open>More example records\<close>

text \<open>What \<^verbatim>\<open>predict_life_expectancy\<close> returns on the example record.\<close>

definition example_prediction :: life_expectancy_prediction where
  "example_prediction =
     \<lparr>le_user_id = ''user_0001'', current_age = 50, le_gender = ''Male'',
      base_life_expectancy = 76.1, predicted_life_expectancy = 49.0,
      confidence_interval = (44.8, 53.2), expected_remaining_years = - 1.0,
      factors =
        [(''Smoking'', - 10), (''BMI'', - 2.4), (''Blood Pressure'', - 3.6),
         (''Cholesterol'', - (47 / 14)), (''Exercise'', 1), (''Diet'', - 1), (''Sleep'', 0.3),
         (''Alcohol'', 0), (''Stress'', - 2), (''Social Connection'', 0.45),
         (''Genetic Factors'', - 1.2308), (''Biological Age'', - 5.25)],
      predicted_at = ''2024-01-01T10:00:00.000001''\<rparr>"

text \<open>The example record with categorical values outside the vocabularies of the tables.\<close>

definition example_unrecognised :: user_data where
  "example_unrecognised =
     \<lparr>user_profile =
        Some (example_profile\<lparr>smoking_status := ''Occasional'', alcohol_frequency := ''Weekly''\<rparr>),
      health_metrics = Some example_metrics,
      impedance_data = Some example_impedance,
      lifestyle_data =
        Some (example_lifestyle
               \<lparr>sleep := \<lparr>average_hours = 5.5, quality = ''Restless''\<rparr>,
                diet := \<lparr>diet_type = ''Standard'', fruit_veg_servings_daily = 2,
                         processed_food_frequency = ''Very Frequently''\<rparr>,
                stress_level := ''Very High''\<rparr>),
      genetic_data = Some example_genetic\<rparr>"

text \<open>A probability: a number from 0 to 1.\<close>

definition unit_interval :: "real \<Rightarrow> bool" where
  "unit_interval x = (0 \<le> x \<and> x \<le> 1)"

text \<open>The example record with an HDL value of zero.\<close>

definition example_user_hdl_zero :: user_data where
  "example_user_hdl_zero =
     example_user\<lparr>health_metrics :=
       Some (example_metrics\<lparr>cholesterol := \<lparr>total_chol = 240, hdl = 0, ldl = 170\<rparr>\<rparr>)\<rparr>"

text \<open>The record with unrecognised categorical values and an HDL value of zero.\<close>

definition example_unrecognised_hdl_zero :: user_data where
  "example_unrecognised_hdl_zero =
     example_unrecognised\<lparr>health_metrics :=
       Some (example_metrics\<lparr>cholesterol := \<lparr>total_chol = 240, hdl = 0, ldl = 170\<rparr>\<rparr>)\<rparr>"

text \<open>The example record with no \<^verbatim>\<open>user_id\<close> in its profile.\<close>

definition example_user_without_id :: user_data where
  "example_user_without_id =
     example_user\<lparr>user_profile := Some (example_profile\<lparr>user_id := None\<rparr>)\<rparr>"

text \<open>What \<^verbatim>\<open>calculate_health_risks\<close> returns on the example record.\<close>

definition example_risk_assessment :: risk_assessment where
  "example_risk_assessment =
     \<lparr>ra_user_id = ''user_0001'',
      ra_risks =
        \<lparr>risk_cardiovascular =
           \<lparr>risk_level = 0.25, category = ''Moderate'',
            risk_entry_factors =
              [(''genetic'', 0.12), (''blood_pressure'', 0.3), (''cholesterol'', 0.3),
               (''smoking'', 0.3), (''exercise'', 0.1), (''bmi'', 0.3)]\<rparr>,
         risk_metabolic =
           \<lparr>risk_level = 0.2, category = ''Moderate'',
            risk_entry_factors =
              [(''genetic'', 0.1), (''glucose'', 0.3), (''bmi'', 0.3), (''exercise'', 0.1),
               (''diet'', 0.0)]\<rparr>,
         risk_neurological =
           \<lparr>risk_level = 0.15, category = ''Low'',
            risk_entry_factors =
              [(''genetic'', 0.04), (''sleep'', 0.2), (''stress'', 0.2), (''exercise'', 0.1),
               (''diet'', 0.0)]\<rparr>,
         risk_cancer =
           \<lparr>risk_level = 0.11, category = ''Low'',
            risk_entry_factors =
              [(''genetic'', 0.04), (''smoking'', 0.3), (''exercise'', 0.1), (''diet'', 0.0)]\<rparr>\<rparr>,
      assessed_at = ''2024-01-01T10:00:00.000003''\<rparr>"

text \<open>
  Draws of the quit-smoking mutator, each inside its range, and the example record with a
  resting heart rate of 60 after the mutator has run with them.
\<close>

definition example_draws :: quit_smoking_draws where
  "example_draws =
     \<lparr>heart_rate_reduction = 8, bp_systolic_reduction = 8, bp_diastolic_reduction = 5,
      vo2_increase = 10, chol_improvement = 0.07\<rparr>"

definition example_metrics_quit :: health_metrics where
  "example_metrics_quit =
     \<lparr>blood_pressure = \<lparr>systolic = 137, diastolic = 87\<rparr>,
      resting_heart_rate = 60,
      cholesterol = \<lparr>total_chol = 223.2, hdl = 35, ldl = 158.1\<rparr>,
      fasting_glucose = 110, hba1c = 6.1, vo2_max = 40, body_fat_percentage = 28\<rparr>"

definition example_user_quit :: user_data where
  "example_user_quit =
     example_user\<lparr>user_profile := Some (example_profile\<lparr>smoking_status := ''Former''\<rparr>),
                  health_metrics := Some example_metrics_quit\<rparr>"

text \<open>
  The example smoker with a resting heart rate of 78 and of 60, and the example as a
  non-smoker.
\<close>

definition example_fast_heart :: user_data where
  "example_fast_heart =
     example_user\<lparr>health_metrics := Some (example_metrics\<lparr>resting_heart_rate := 78\<rparr>)\<rparr>"

definition example_at_floor :: user_data where
  "example_at_floor =
     example_user\<lparr>health_metrics := Some (example_metrics\<lparr>resting_heart_rate := 60\<rparr>)\<rparr>"

definition example_never_smoker :: user_data where
  "example_never_smoker =
     example_user\<lparr>user_profile := Some (example_profile\<lparr>smoking_status := ''Never''\<rparr>)\<rparr>"

text \<open>
  Draws of the generator whose HDL draw is five standard deviations below the mean, and
  the health metrics the generator builds from them for the example profile.
\<close>

definition example_health_draws :: health_metrics_draws where
  "example_health_draws =
     \<lparr>z_systolic = 0, z_diastolic = 0, u_fitness_level = 0.5, z_heart_rate = 0,
      z_cholesterol = 0, z_hdl = - 5, z_triglycerides = 0, z_glucose = 0, z_hba1c = 0,
      z_vo2max = 0, z_body_fat = 0\<rparr>"

definition example_generated_metrics :: health_metrics where
  "example_generated_metrics =
     \<lparr>blood_pressure = \<lparr>systolic = 138, diastolic = 86\<rparr>,
      resting_heart_rate = 68,
      cholesterol = \<lparr>total_chol = 197, hdl = 0, ldl = 167\<rparr>,
      fasting_glucose = 88, hba1c = 5.1, vo2_max = 43.5, body_fat_percentage = 28.5\<rparr>"

section \<open>Basic facts\<close>

lemma bind_err_Inl [simp]: "bind_err (Inl e) f = Inl e"
  by (simp add: bind_err_def)

lemma bind_err_Inr [simp]: "bind_err (Inr x) f = f x"
  by (simp add: bind_err_def)

lemma getitem_Some [simp]: "getitem k (Some x) = Inr x"
  by (simp add: getitem_def)

lemma getitem_None [simp]: "getitem k None = Inl (KeyError k)"
  by (simp add: getitem_def)

text \<open>
  Evaluation order: the continuation of a \<open>bind_err\<close> is looked at only once its first
  argument is a value.
\<close>

lemma bind_err_cong: "m = m' \<Longrightarrow> bind_err m f = bind_err m' f"
  by simp

lemma round_half_even_ge_floor: "\<lfloor>x\<rfloor> \<le> round_half_even x"
  by (simp add: round_half_even_def Let_def)

lemma round_half_even_le_ceiling: "round_half_even x \<le> \<lceil>x\<rceil>"
proof -
  have "x - of_int \<lfloor>x\<rfloor> \<noteq> 0 \<Longrightarrow> \<lfloor>x\<rfloor> + 1 \<le> \<lceil>x\<rceil>"
    by (metis ceiling_altdef diff_eq_eq add_0 order_refl)
  moreover have "\<lfloor>x\<rfloor> \<le> \<lceil>x\<rceil>"
    by (rule floor_le_ceiling)
  ultimately show ?thesis
    by (auto simp: round_half_even_def Let_def)
qed

lemma round_half_even_of_int [simp]: "round_half_even (of_int k) = k"
  by (simp add: round_half_even_def Let_def)

lemma round_half_even_close: "\<bar>of_int (round_half_even x) - x\<bar> \<le> 1 / 2"
proof -
  have "of_int \<lfloor>x\<rfloor> \<le> x" "x < of_int \<lfloor>x\<rfloor> + 1"
    by linarith+
  then show ?thesis
    by (auto simp: round_half_even_def Let_def abs_le_iff)
qed

lemma py_round_lower:
  assumes "of_int k \<le> x" shows "of_int k \<le> py_round x n"
proof -
  have "(of_int (k * 10 ^ n) :: real) \<le> x * 10 ^ n"
    using assms by (simp add: mult_right_mono)
  then have "k * 10 ^ n \<le> \<lfloor>x * 10 ^ n\<rfloor>"
    by (simp only: le_floor_iff)
  then have "k * 10 ^ n \<le> round_half_even (x * 10 ^ n)"
    using round_half_even_ge_floor [of "x * 10 ^ n"] by linarith
  then have "(of_int (k * 10 ^ n) :: real) \<le> of_int (round_half_even (x * 10 ^ n))"
    by (simp only: of_int_le_iff)
  then show ?thesis
    by (simp add: py_round_def pos_le_divide_eq)
qed

lemma py_round_upper:
  assumes "x \<le> of_int k" shows "py_round x n \<le> of_int k"
proof -
  have "x * 10 ^ n \<le> (of_int (k * 10 ^ n) :: real)"
    using assms by (simp add: mult_right_mono)
  then have "\<lceil>x * 10 ^ n\<rceil> \<le> k * 10 ^ n"
    by (simp only: ceiling_le_iff)
  then have "round_half_even (x * 10 ^ n) \<le> k * 10 ^ n"
    using round_half_even_le_ceiling [of "x * 10 ^ n"] by linarith
  then have "(of_int (round_half_even (x * 10 ^ n)) :: real) \<le> of_int (k * 10 ^ n)"
    by (simp only: of_int_le_iff)
  then show ?thesis
    by (simp add: py_round_def pos_divide_le_eq)
qed

lemma py_round_close1: "\<bar>py_round x 1 - x\<bar> \<le> 1 / 20"
proof -
  have "\<bar>of_int (round_half_even (x * 10)) - x * 10\<bar> \<le> 1 / 2"
    by (rule round_half_even_close)
  then show ?thesis
    unfolding py_round_def power_one_right by linarith
qed

lemma py_round_tenth: "py_round (of_int k / 10) 1 = of_int k / 10"
  by (simp add: py_round_def)

section \<open>The risk categories are a step function\<close>

text \<open>
  C3. \<^verbatim>\<open>_categorize_risk\<close> is a step function of its argument with the cut points 0.15,
  0.35 and 0.60: below 0.15 it answers Low, from 0.15 and below 0.35 Moderate, from 0.35
  and below 0.60 High, and from 0.60 on Very High. A value exactly at a cut point is in
  the higher category.
\<close>

theorem categorize_risk_steps:
  "(x < 0.15 \<longrightarrow> categorize_risk x = ''Low'') \<and>
   (0.15 \<le> x \<and> x < 0.35 \<longrightarrow> categorize_risk x = ''Moderate'') \<and>
   (0.35 \<le> x \<and> x < 0.60 \<longrightarrow> categorize_risk x = ''High'') \<and>
   (0.60 \<le> x \<longrightarrow> categorize_risk x = ''Very High'')"
  by (simp add: categorize_risk_def)

theorem categorize_risk_steps_witness:
  "categorize_risk 0.1499 = ''Low'' \<and> categorize_risk 0.15 = ''Moderate'' \<and>
   categorize_risk 0.35 = ''High'' \<and> categorize_risk 0.60 = ''Very High''"
  using categorize_risk_steps [of "0.1499"] categorize_risk_steps [of "0.15"]
    categorize_risk_steps [of "0.35"] categorize_risk_steps [of "0.60"]
  by simp

section \<open>Evaluating the model\<close>

lemmas python_defs =
  lower_def lower_char_def dict_get_def dict_values_def py_div_def average_def mean_def
  py_round_def round_half_even_def Let_def

lemmas adjustment_defs =
  base_expectancy_def smoking_adj_def bmi_adj_def bp_adj_def chol_adj_def exercise_adj_def
  diet_adj_def sleep_adj_def alcohol_adj_def stress_adj_def social_adj_def genetic_adj_def
  bio_age_adj_def smoking_weights_def processed_food_weights_def sleep_quality_weights_def
  alcohol_weights_def stress_weights_def

lemmas example_defs =
  example_user_def example_profile_def example_metrics_def example_impedance_def
  example_lifestyle_def example_genetic_def

section \<open>The priority list\<close>

lemma insort_key_past:
  "\<forall>y \<in> set as. f y < f x \<Longrightarrow> insort_key f x (as @ bs) = as @ insort_key f x bs"
  by (induction as) auto

lemma sort_key_two_keys:
  fixes f :: "'a \<Rightarrow> nat"
  assumes "\<forall>x \<in> set xs. f x = 0 \<or> f x = 1"
  shows "sort_key f xs = filter (\<lambda>x. f x = 0) xs @ filter (\<lambda>x. f x = 1) xs"
  using assms
proof (induction xs)
  case Nil
  then show ?case by simp
next
  case (Cons x xs)
  then have ih: "sort_key f xs = filter (\<lambda>x. f x = 0) xs @ filter (\<lambda>x. f x = 1) xs"
    by simp
  from Cons.prems have "f x = 0 \<or> f x = 1"
    by simp
  then show ?case
  proof
    assume "f x = 0"
    then show ?thesis
      by (simp add: ih insort_is_Cons)
  next
    assume fx: "f x = 1"
    have "insort_key f x (filter (\<lambda>x. f x = 0) xs @ filter (\<lambda>x. f x = 1) xs) =
          filter (\<lambda>x. f x = 0) xs @ insort_key f x (filter (\<lambda>x. f x = 1) xs)"
      by (rule insort_key_past) (simp add: fx)
    moreover have "insort_key f x (filter (\<lambda>x. f x = 1) xs) = x # filter (\<lambda>x. f x = 1) xs"
      by (rule insort_is_Cons) (simp add: fx)
    ultimately show ?thesis
      by (simp add: ih fx)
  qed
qed

lemma fold_append_filter:
  "fold (\<lambda>r acc. if P r then acc @ [g r] else acc) rs acc = acc @ map g (filter P rs)"
  by (induction rs arbitrary: acc) auto

lemma fold_fold_append_filter:
  "fold (\<lambda>(cat, rs) acc. fold (\<lambda>r acc'. if P r then acc' @ [g cat r] else acc') rs acc) recs acc =
   acc @ concat (map (\<lambda>(cat, rs). map (g cat) (filter P rs)) recs)"
  by (induction recs arbitrary: acc) (auto simp: fold_append_filter)

lemma filter_flatten:
  "filter (\<lambda>x. Q (hp_priority x)) (flatten_recommendations recs) =
   concat (map (\<lambda>(cat, rs). map (priority_entry_of cat) (filter (\<lambda>r. Q (priority r)) rs)) recs)"
  by (induction recs)
     (auto simp: flatten_recommendations_def priority_entry_of_def filter_map comp_def)

lemma extract_as_filter:
  "extract_high_priority_recommendations recs =
   sort_key priority_key
     (filter (\<lambda>x. hp_priority x \<in> set [''High'', ''Very High'']) (flatten_recommendations recs))"
proof -
  let ?P = "\<lambda>r. priority r \<in> set [''High'', ''Very High'']"
  have "extract_high_priority_recommendations recs =
        sort_key priority_key
          (fold (\<lambda>(cat, rs) acc.
                   fold (\<lambda>r acc'. if ?P r then acc' @ [priority_entry_of cat r] else acc') rs acc)
                recs [])"
    unfolding extract_high_priority_recommendations_def priority_entry_of_def Let_def
    by (rule refl)
  also have "fold (\<lambda>(cat, rs) acc.
                   fold (\<lambda>r acc'. if ?P r then acc' @ [priority_entry_of cat r] else acc') rs acc)
                recs [] =
        [] @ concat (map (\<lambda>(cat, rs). map (priority_entry_of cat) (filter ?P rs)) recs)"
    by (rule fold_fold_append_filter)
  also have "[] @ concat (map (\<lambda>(cat, rs). map (priority_entry_of cat) (filter ?P rs)) recs) =
        filter (\<lambda>x. hp_priority x \<in> set [''High'', ''Very High'']) (flatten_recommendations recs)"
    using filter_flatten [of "\<lambda>p. p \<in> set [''High'', ''Very High'']" recs] by simp
  finally show ?thesis .
qed

text \<open>
  C8. \<^verbatim>\<open>_extract_high_priority_recommendations\<close> flattens the lists of all categories,
  keeps exactly the entries whose priority is High or Very High, and returns every Very
  High entry before every High entry; entries of the same priority stay in the order in
  which the flattening meets them.
\<close>

theorem extract_high_priority_sorted_stable:
  "extract_high_priority_recommendations recs =
     filter (\<lambda>x. hp_priority x = ''Very High'') (flatten_recommendations recs) @
     filter (\<lambda>x. hp_priority x = ''High'') (flatten_recommendations recs)"
proof -
  let ?hp = "filter (\<lambda>x. hp_priority x \<in> set [''High'', ''Very High''])
               (flatten_recommendations recs)"
  have "sort_key priority_key ?hp =
        filter (\<lambda>x. priority_key x = 0) ?hp @ filter (\<lambda>x. priority_key x = 1) ?hp"
    by (rule sort_key_two_keys) (simp add: priority_key_def)
  moreover have "filter (\<lambda>x. priority_key x = 0) ?hp =
        filter (\<lambda>x. hp_priority x = ''Very High'') (flatten_recommendations recs)"
    by (auto simp: priority_key_def intro: filter_cong)
  moreover have "filter (\<lambda>x. priority_key x = 1) ?hp =
        filter (\<lambda>x. hp_priority x = ''High'') (flatten_recommendations recs)"
    by (auto simp: priority_key_def intro: filter_cong)
  ultimately show ?thesis
    by (simp only: extract_as_filter)
qed

section \<open>The impact estimate\<close>

lemma high_priority_count_length:
  "high_priority_count recs =
   length (filter (\<lambda>r. priority r = ''High'' \<or> priority r = ''Very High'') (concat (map snd recs)))"
  by (simp add: high_priority_count_def dict_values_def sum_list_triv)

lemma min_tenths: "min (of_nat n * 0.8) (8.0 :: real) = of_int (min (int n * 8) 80) / 10"
  by (simp add: min_def)

text \<open>
  C9. \<^verbatim>\<open>potential_years_gained\<close> is \<open>min (0.8 * n) 8.0\<close>, where \<open>n\<close> counts the
  recommendations of all categories whose priority is High or Very High. The prediction
  does not occur on the right-hand side: the value depends on the count alone.
\<close>

theorem potential_years_gained_count:
  "potential_years_gained (estimate_impact_on_life_expectancy recs predictions) =
   min (0.8 * of_nat (length (filter (\<lambda>r. priority r = ''High'' \<or> priority r = ''Very High'')
                                (concat (map snd recs))))) 8.0"
proof -
  let ?n = "length (filter (\<lambda>r. priority r = ''High'' \<or> priority r = ''Very High'')
                      (concat (map snd recs)))"
  have "potential_years_gained (estimate_impact_on_life_expectancy recs predictions) =
        py_round (min (of_nat ?n * 0.8) 8.0) 1"
    by (simp add: estimate_impact_on_life_expectancy_def Let_def high_priority_count_length)
  also have "\<dots> = py_round (of_int (min (int ?n * 8) 80) / 10) 1"
    by (simp only: min_tenths)
  also have "\<dots> = of_int (min (int ?n * 8) 80) / 10"
    by (rule py_round_tenth)
  also have "\<dots> = min (of_nat ?n * 0.8) 8.0"
    by (simp only: min_tenths)
  finally show ?thesis
    by (simp add: mult.commute)
qed

section \<open>The life expectancy is the rounded sum\<close>

lemma py_div_nonzero: "b \<noteq> 0 \<Longrightarrow> py_div a b = Inr (a / b)"
  by (simp add: py_div_def)

lemma average_nonempty: "xs \<noteq> [] \<Longrightarrow> average xs = Inr (sum_list xs / of_nat (length xs))"
  by (simp add: average_def py_div_def)

lemma chol_adj_returns:
  "hdl (cholesterol hm) \<noteq> 0 \<Longrightarrow> \<exists>c. chol_adj hm = Inr c"
  by (simp add: chol_adj_def py_div_nonzero)

lemma genetic_adj_returns:
  "cancer (risk_factors g) \<noteq> [] \<Longrightarrow> neurodegenerative (risk_factors g) \<noteq> [] \<Longrightarrow>
   \<exists>v. genetic_adj g = Inr v"
  by (simp add: genetic_adj_def Let_def dict_values_def average_nonempty)

lemma predict_life_expectancy_result:
  assumes "user_profile ud = Some p" and "health_metrics ud = Some hm"
    and "impedance_data ud = Some imp" and "lifestyle_data ud = Some ls"
    and "genetic_data ud = Some g" and "user_id p = Some uid"
    and "chol_adj hm = Inr chol" and "genetic_adj g = Inr gen"
  shows "predict_life_expectancy now ud =
     Inr \<lparr>le_user_id = uid,
          current_age = age p,
          le_gender = gender p,
          base_life_expectancy = base_expectancy p,
          predicted_life_expectancy =
            py_round (base_expectancy p +
              (smoking_adj p + bmi_adj p + bp_adj hm + chol + exercise_adj ls + diet_adj ls +
               sleep_adj ls + alcohol_adj p + stress_adj ls + social_adj ls + gen +
               bio_age_adj p imp)) 1,
          confidence_interval =
            (py_round (base_expectancy p +
               (smoking_adj p + bmi_adj p + bp_adj hm + chol + exercise_adj ls + diet_adj ls +
                sleep_adj ls + alcohol_adj p + stress_adj ls + social_adj ls + gen +
                bio_age_adj p imp) - 4.2) 1,
             py_round (base_expectancy p +
               (smoking_adj p + bmi_adj p + bp_adj hm + chol + exercise_adj ls + diet_adj ls +
                sleep_adj ls + alcohol_adj p + stress_adj ls + social_adj ls + gen +
                bio_age_adj p imp) + 4.2) 1),
          expected_remaining_years =
            py_round (base_expectancy p +
              (smoking_adj p + bmi_adj p + bp_adj hm + chol + exercise_adj ls + diet_adj ls +
               sleep_adj ls + alcohol_adj p + stress_adj ls + social_adj ls + gen +
               bio_age_adj p imp) - age p) 1,
          factors =
            [(''Smoking'', smoking_adj p), (''BMI'', bmi_adj p), (''Blood Pressure'', bp_adj hm),
             (''Cholesterol'', chol), (''Exercise'', exercise_adj ls), (''Diet'', diet_adj ls),
             (''Sleep'', sleep_adj ls), (''Alcohol'', alcohol_adj p), (''Stress'', stress_adj ls),
             (''Social Connection'', social_adj ls), (''Genetic Factors'', gen),
             (''Biological Age'', bio_age_adj p imp)],
          predicted_at = now\<rparr>"
  using assms by (simp add: predict_life_expectancy_def Let_def add.assoc)

text \<open>
  C1, as the code has it. On a record with all five sections, a \<^verbatim>\<open>user_id\<close>, an HDL
  value other than zero and non-empty cancer and neurodegenerative risk tables,
  \<^verbatim>\<open>predict_life_expectancy\<close> returns; the base is 76.1 for a gender that reads "male"
  in lower case and 81.1 otherwise; \<^verbatim>\<open>factors\<close> holds the twelve (label, value) pairs in
  the order of the computation; and \<^verbatim>\<open>predicted_life_expectancy\<close> is the base plus the
  sum of the twelve values, rounded to one decimal, so within 0.05 of the sum.
\<close>

theorem predict_life_expectancy_rounded_sum:
  assumes "user_profile ud = Some p" and "health_metrics ud = Some hm"
    and "impedance_data ud = Some imp" and "lifestyle_data ud = Some ls"
    and "genetic_data ud = Some g" and "user_id p = Some uid"
    and "hdl (cholesterol hm) \<noteq> 0"
    and "cancer (risk_factors g) \<noteq> []" and "neurodegenerative (risk_factors g) \<noteq> []"
  shows "\<exists>r chol gen.
     predict_life_expectancy now ud = Inr r \<and>
     chol_adj hm = Inr chol \<and> genetic_adj g = Inr gen \<and>
     base_life_expectancy r = (if lower (gender p) = ''male'' then 76.1 else 81.1) \<and>
     factors r =
       [(''Smoking'', smoking_adj p), (''BMI'', bmi_adj p), (''Blood Pressure'', bp_adj hm),
        (''Cholesterol'', chol), (''Exercise'', exercise_adj ls), (''Diet'', diet_adj ls),
        (''Sleep'', sleep_adj ls), (''Alcohol'', alcohol_adj p), (''Stress'', stress_adj ls),
        (''Social Connection'', social_adj ls), (''Genetic Factors'', gen),
        (''Biological Age'', bio_age_adj p imp)] \<and>
     predicted_life_expectancy r =
       py_round (base_life_expectancy r + sum_list (map snd (factors r))) 1 \<and>
     \<bar>predicted_life_expectancy r - (base_life_expectancy r + sum_list (map snd (factors r)))\<bar>
       \<le> 0.05"
proof -
  obtain chol where chol: "chol_adj hm = Inr chol"
    using chol_adj_returns [OF assms(7)] by blast
  obtain gen where gen: "genetic_adj g = Inr gen"
    using genetic_adj_returns [OF assms(8) assms(9)] by blast
  note res = predict_life_expectancy_result [OF assms(1-6) chol gen, of now]
  have close: "\<And>x. \<bar>py_round x (Suc 0) - x\<bar> * 20 \<le> 1"
    using py_round_close1 by simp
  have "\<exists>r. predict_life_expectancy now ud = Inr r \<and>
     base_life_expectancy r = (if lower (gender p) = ''male'' then 76.1 else 81.1) \<and>
     factors r =
       [(''Smoking'', smoking_adj p), (''BMI'', bmi_adj p), (''Blood Pressure'', bp_adj hm),
        (''Cholesterol'', chol), (''Exercise'', exercise_adj ls), (''Diet'', diet_adj ls),
        (''Sleep'', sleep_adj ls), (''Alcohol'', alcohol_adj p), (''Stress'', stress_adj ls),
        (''Social Connection'', social_adj ls), (''Genetic Factors'', gen),
        (''Biological Age'', bio_age_adj p imp)] \<and>
     predicted_life_expectancy r =
       py_round (base_life_expectancy r + sum_list (map snd (factors r))) 1 \<and>
     \<bar>predicted_life_expectancy r - (base_life_expectancy r + sum_list (map snd (factors r)))\<bar>
       \<le> 0.05"
    by (simp add: res base_expectancy_def close add.assoc)
  with chol gen show ?thesis
    by blast
qed

theorem predict_life_expectancy_rounded_sum_witness:
  "\<exists>r chol gen.
     predict_life_expectancy ''2024-01-01T10:00:00.000001'' example_user = Inr r \<and>
     chol_adj example_metrics = Inr chol \<and> genetic_adj example_genetic = Inr gen \<and>
     base_life_expectancy r = (if lower (gender example_profile) = ''male'' then 76.1 else 81.1) \<and>
     factors r =
       [(''Smoking'', smoking_adj example_profile), (''BMI'', bmi_adj example_profile),
        (''Blood Pressure'', bp_adj example_metrics), (''Cholesterol'', chol),
        (''Exercise'', exercise_adj example_lifestyle), (''Diet'', diet_adj example_lifestyle),
        (''Sleep'', sleep_adj example_lifestyle), (''Alcohol'', alcohol_adj example_profile),
        (''Stress'', stress_adj example_lifestyle),
        (''Social Connection'', social_adj example_lifestyle), (''Genetic Factors'', gen),
        (''Biological Age'', bio_age_adj example_profile example_impedance)] \<and>
     predicted_life_expectancy r =
       py_round (base_life_expectancy r + sum_list (map snd (factors r))) 1 \<and>
     \<bar>predicted_life_expectancy r - (base_life_expectancy r + sum_list (map snd (factors r)))\<bar>
       \<le> 0.05"
  by (rule predict_life_expectancy_rounded_sum [where uid = "''user_0001''"])
     (simp_all add: example_defs)

lemma example_chol_adj: "chol_adj example_metrics = Inr (- (47 / 14))"
  by (simp add: example_defs adjustment_defs python_defs)

lemma example_genetic_adj: "genetic_adj example_genetic = Inr (- 1.2308)"
  by (simp add: example_defs adjustment_defs python_defs)

lemma example_predict:
  "predict_life_expectancy ''2024-01-01T10:00:00.000001'' example_user = Inr example_prediction"
proof -
  have "predict_life_expectancy ''2024-01-01T10:00:00.000001'' example_user =
        Inr \<lparr>le_user_id = ''user_0001'',
          current_age = age example_profile,
          le_gender = gender example_profile,
          base_life_expectancy = base_expectancy example_profile,
          predicted_life_expectancy =
            py_round (base_expectancy example_profile +
              (smoking_adj example_profile + bmi_adj example_profile + bp_adj example_metrics +
               - (47 / 14) + exercise_adj example_lifestyle + diet_adj example_lifestyle +
               sleep_adj example_lifestyle + alcohol_adj example_profile +
               stress_adj example_lifestyle + social_adj example_lifestyle + - 1.2308 +
               bio_age_adj example_profile example_impedance)) 1,
          confidence_interval =
            (py_round (base_expectancy example_profile +
              (smoking_adj example_profile + bmi_adj example_profile + bp_adj example_metrics +
               - (47 / 14) + exercise_adj example_lifestyle + diet_adj example_lifestyle +
               sleep_adj example_lifestyle + alcohol_adj example_profile +
               stress_adj example_lifestyle + social_adj example_lifestyle + - 1.2308 +
               bio_age_adj example_profile example_impedance) - 4.2) 1,
             py_round (base_expectancy example_profile +
              (smoking_adj example_profile + bmi_adj example_profile + bp_adj example_metrics +
               - (47 / 14) + exercise_adj example_lifestyle + diet_adj example_lifestyle +
               sleep_adj example_lifestyle + alcohol_adj example_profile +
               stress_adj example_lifestyle + social_adj example_lifestyle + - 1.2308 +
               bio_age_adj example_profile example_impedance) + 4.2) 1),
          expected_remaining_years =
            py_round (base_expectancy example_profile +
              (smoking_adj example_profile + bmi_adj example_profile + bp_adj example_metrics +
               - (47 / 14) + exercise_adj example_lifestyle + diet_adj example_lifestyle +
               sleep_adj example_lifestyle + alcohol_adj example_profile +
               stress_adj example_lifestyle + social_adj example_lifestyle + - 1.2308 +
               bio_age_adj example_profile example_impedance) - age example_profile) 1,
          factors =
            [(''Smoking'', smoking_adj example_profile), (''BMI'', bmi_adj example_profile),
             (''Blood Pressure'', bp_adj example_metrics),
             (''Cholesterol'', - (47 / 14)), (''Exercise'', exercise_adj example_lifestyle),
             (''Diet'', diet_adj example_lifestyle),
             (''Sleep'', sleep_adj example_lifestyle), (''Alcohol'', alcohol_adj example_profile),
             (''Stress'', stress_adj example_lifestyle),
             (''Social Connection'', social_adj example_lifestyle), (''Genetic Factors'', - 1.2308),
             (''Biological Age'', bio_age_adj example_profile example_impedance)],
          predicted_at = ''2024-01-01T10:00:00.000001''\<rparr>"
    by (rule predict_life_expectancy_result [OF _ _ _ _ _ _ example_chol_adj example_genetic_adj])
       (simp_all add: example_defs)
  also have "\<dots> = Inr example_prediction"
    by (simp add: example_prediction_def example_defs adjustment_defs python_defs)
  finally show ?thesis .
qed

text \<open>
  C1 as stated fails: on the example record the sum is 49.0121 and the value returned is
  49.0.
\<close>

theorem example_prediction_is_rounded:
  "predict_life_expectancy ''2024-01-01T10:00:00.000001'' example_user = Inr example_prediction \<and>
   predicted_life_expectancy example_prediction \<noteq>
     base_life_expectancy example_prediction + sum_list (map snd (factors example_prediction))"
  by (simp add: example_predict) (simp add: example_prediction_def)

section \<open>Unrecognised categorical values\<close>

lemma predict_zero_hdl:
  assumes "user_profile ud = Some p" and "health_metrics ud = Some hm"
    and "impedance_data ud = Some imp" and "lifestyle_data ud = Some ls"
    and "genetic_data ud = Some g" and "hdl (cholesterol hm) = 0"
  shows "predict_life_expectancy now ud = Inl ZeroDivisionError"
  using assms
  by (simp add: predict_life_expectancy_def chol_adj_def py_div_def Let_def cong: bind_err_cong)

lemma dict_get_missing: "k \<notin> set (map fst d) \<Longrightarrow> dict_get d k dflt = dflt"
  by (simp add: dict_get_def map_of_eq_None_iff [THEN iffD2])

text \<open>
  C10, as the code has it. On a record on which the numeric part of the computation is
  defined (all
  sections, a \<^verbatim>\<open>user_id\<close>, HDL not zero, non-empty risk tables), whatever the
  categorical strings are, \<^verbatim>\<open>predict_life_expectancy\<close> returns a prediction, and a
  smoking status, alcohol frequency, stress level, sleep quality or processed-food
  frequency that is not a key of its table after lower-casing contributes 0: the Smoking,
  Alcohol and Stress factors are 0, the Sleep factor is its hours part alone and the Diet
  factor is its servings and diet-type parts alone.
\<close>

theorem unrecognised_category_contributes_zero:
  assumes "user_profile ud = Some p" and "health_metrics ud = Some hm"
    and "impedance_data ud = Some imp" and "lifestyle_data ud = Some ls"
    and "genetic_data ud = Some g" and "user_id p = Some uid"
    and "hdl (cholesterol hm) \<noteq> 0"
    and "cancer (risk_factors g) \<noteq> []" and "neurodegenerative (risk_factors g) \<noteq> []"
  shows "\<exists>r.
     predict_life_expectancy now ud = Inr r \<and>
     (lower (smoking_status p) \<notin> set [''never'', ''former'', ''current''] \<longrightarrow>
        map_of (factors r) ''Smoking'' = Some 0) \<and>
     (lower (alcohol_frequency p) \<notin> set [''none'', ''rare'', ''moderate'', ''frequent''] \<longrightarrow>
        map_of (factors r) ''Alcohol'' = Some 0) \<and>
     (lower (stress_level ls) \<notin> set [''low'', ''moderate'', ''high'', ''very_high''] \<longrightarrow>
        map_of (factors r) ''Stress'' = Some 0) \<and>
     (lower (quality (sleep ls)) \<notin> set [''poor'', ''fair'', ''good'', ''excellent''] \<longrightarrow>
        map_of (factors r) ''Sleep'' =
          Some (if average_hours (sleep ls) < 7.5
                then (average_hours (sleep ls) - 7.5) * (- 0.5) else 0)) \<and>
     (lower (processed_food_frequency (diet ls)) \<notin>
          set [''rarely'', ''sometimes'', ''often'', ''very_frequently''] \<longrightarrow>
        map_of (factors r) ''Diet'' =
          Some (fruit_veg_servings_daily (diet ls) * 0.4 +
                (if lower (diet_type (diet ls)) = ''mediterranean'' then 2.5 else 0)))"
proof -
  obtain chol where chol: "chol_adj hm = Inr chol"
    using chol_adj_returns [OF assms(7)] by blast
  obtain gen where gen: "genetic_adj g = Inr gen"
    using genetic_adj_returns [OF assms(8) assms(9)] by blast
  note res = predict_life_expectancy_result [OF assms(1-6) chol gen, of now]
  have smoking: "lower (smoking_status p) \<notin> set [''never'', ''former'', ''current''] \<Longrightarrow>
      smoking_adj p = 0"
    unfolding smoking_adj_def by (rule dict_get_missing) (simp add: smoking_weights_def)
  have alcohol: "lower (alcohol_frequency p) \<notin> set [''none'', ''rare'', ''moderate'', ''frequent'']
      \<Longrightarrow> alcohol_adj p = 0"
    unfolding alcohol_adj_def by (rule dict_get_missing) (simp add: alcohol_weights_def)
  have stress: "lower (stress_level ls) \<notin> set [''low'', ''moderate'', ''high'', ''very_high'']
      \<Longrightarrow> stress_adj ls = 0"
    unfolding stress_adj_def by (rule dict_get_missing) (simp add: stress_weights_def)
  have sleep: "lower (quality (sleep ls)) \<notin> set [''poor'', ''fair'', ''good'', ''excellent''] \<Longrightarrow>
      sleep_adj ls = (if average_hours (sleep ls) < 7.5
                      then (average_hours (sleep ls) - 7.5) * (- 0.5) else 0)"
    by (simp add: sleep_adj_def Let_def dict_get_missing sleep_quality_weights_def)
  have diet: "lower (processed_food_frequency (diet ls)) \<notin>
          set [''rarely'', ''sometimes'', ''often'', ''very_frequently''] \<Longrightarrow>
      diet_adj ls = fruit_veg_servings_daily (diet ls) * 0.4 +
                (if lower (diet_type (diet ls)) = ''mediterranean'' then 2.5 else 0)"
    by (simp add: diet_adj_def Let_def dict_get_missing processed_food_weights_def)
  show ?thesis
    using smoking alcohol stress sleep diet by (simp add: res)
qed

theorem unrecognised_category_contributes_zero_witness:
  "\<exists>r. predict_life_expectancy ''2024-01-01T10:00:00.000001'' example_unrecognised = Inr r \<and>
     map_of (factors r) ''Smoking'' = Some 0 \<and>
     map_of (factors r) ''Alcohol'' = Some 0 \<and>
     map_of (factors r) ''Stress'' = Some 0 \<and>
     map_of (factors r) ''Sleep'' = Some 1 \<and>
     map_of (factors r) ''Diet'' = Some 0.8"
proof -
  have "\<exists>r. predict_life_expectancy ''2024-01-01T10:00:00.000001'' example_unrecognised = Inr r \<and>
     (lower ''Occasional'' \<notin> set [''never'', ''former'', ''current''] \<longrightarrow>
        map_of (factors r) ''Smoking'' = Some 0) \<and>
     (lower ''Weekly'' \<notin> set [''none'', ''rare'', ''moderate'', ''frequent''] \<longrightarrow>
        map_of (factors r) ''Alcohol'' = Some 0) \<and>
     (lower ''Very High'' \<notin> set [''low'', ''moderate'', ''high'', ''very_high''] \<longrightarrow>
        map_of (factors r) ''Stress'' = Some 0) \<and>
     (lower ''Restless'' \<notin> set [''poor'', ''fair'', ''good'', ''excellent''] \<longrightarrow>
        map_of (factors r) ''Sleep'' =
          Some (if (5.5 :: real) < 7.5 then (5.5 - 7.5) * (- 0.5) else 0)) \<and>
     (lower ''Very Frequently'' \<notin>
          set [''rarely'', ''sometimes'', ''often'', ''very_frequently''] \<longrightarrow>
        map_of (factors r) ''Diet'' =
          Some (2 * 0.4 + (if lower ''Standard'' = ''mediterranean'' then 2.5 else 0)))"
    using unrecognised_category_contributes_zero
      [of example_unrecognised
          "example_profile\<lparr>smoking_status := ''Occasional'', alcohol_frequency := ''Weekly''\<rparr>"
          example_metrics example_impedance
          "example_lifestyle
               \<lparr>sleep := \<lparr>average_hours = 5.5, quality = ''Restless''\<rparr>,
                diet := \<lparr>diet_type = ''Standard'', fruit_veg_servings_daily = 2,
                         processed_food_frequency = ''Very Frequently''\<rparr>,
                stress_level := ''Very High''\<rparr>"
          example_genetic "''user_0001''" "''2024-01-01T10:00:00.000001''"]
    by (simp add: example_unrecognised_def example_defs)
  then show ?thesis
    by (simp add: lower_def lower_char_def)
qed

text \<open>
  C10 as stated, for any input record, fails: the record with unrecognised categorical
  values and an HDL value of zero gets no prediction, \<^verbatim>\<open>predict_life_expectancy\<close> raises
  \<^verbatim>\<open>ZeroDivisionError\<close> on it.
\<close>

theorem unrecognised_categories_with_zero_hdl:
  "predict_life_expectancy ''2024-01-01T10:00:00.000001'' example_unrecognised_hdl_zero =
     Inl ZeroDivisionError"
  by (rule predict_zero_hdl
        [where hm = "example_metrics\<lparr>cholesterol := \<lparr>total_chol = 240, hdl = 0, ldl = 170\<rparr>\<rparr>"])
     (simp_all add: example_unrecognised_hdl_zero_def example_unrecognised_def)

section \<open>The floor of the biological age and the clamp of the risk levels\<close>

lemma biological_age_raw_floor: "20 \<le> biological_age_raw p hm imp ls chol_ratio"
  by (simp add: biological_age_raw_def Let_def)

lemma calculate_biological_age_result:
  assumes "user_profile ud = Some p" and "health_metrics ud = Some hm"
    and "impedance_data ud = Some imp" and "lifestyle_data ud = Some ls"
    and "user_id p = Some uid" and "hdl (cholesterol hm) \<noteq> 0"
  shows "\<exists>r. calculate_biological_age now ud = Inr r \<and>
     biological_age r =
       py_round (biological_age_raw p hm imp ls (total_chol (cholesterol hm) / hdl (cholesterol hm))) 1"
  using assms by (simp add: calculate_biological_age_def py_div_nonzero Let_def)

lemma mean_nonneg: "\<forall>x \<in> set fs. 0 \<le> x \<Longrightarrow> 0 \<le> mean fs"
  by (simp add: mean_def sum_list_nonneg)

lemma clamped_risk_level: "0 \<le> m \<Longrightarrow> unit_interval (py_round (min 1.0 m) 2)"
proof -
  assume m: "0 \<le> m"
  have "of_int 0 \<le> py_round (min 1.0 m) 2"
    by (rule py_round_lower) (simp add: m)
  moreover have "py_round (min 1.0 m) 2 \<le> of_int 1"
    by (rule py_round_upper) simp
  ultimately show ?thesis
    by (simp add: unit_interval_def)
qed

lemma bp_risk_factor_nonneg: "0 \<le> bp_risk_factor hm"
  by (simp add: bp_risk_factor_def Let_def)

lemma chol_risk_factor_nonneg: "0 \<le> chol_risk_factor c"
  by (simp add: chol_risk_factor_def)

lemma smoking_risk_factor_cv_nonneg: "0 \<le> smoking_risk_factor_cv p"
  by (simp add: smoking_risk_factor_cv_def Let_def)

lemma exercise_risk_factor_nonneg: "0 \<le> exercise_risk_factor ls"
  by (simp add: exercise_risk_factor_def Let_def)

lemma bmi_risk_factor_cv_nonneg: "0 \<le> bmi_risk_factor_cv p"
  by (simp add: bmi_risk_factor_cv_def)

lemma glucose_risk_factor_nonneg: "0 \<le> glucose_risk_factor hm"
  by (simp add: glucose_risk_factor_def)

lemma bmi_risk_factor_metabolic_nonneg: "0 \<le> bmi_risk_factor_metabolic p"
  by (simp add: bmi_risk_factor_metabolic_def)

lemma diet_risk_factor_metabolic_nonneg: "0 \<le> diet_risk_factor_metabolic ls"
  by (simp add: diet_risk_factor_metabolic_def Let_def)

lemma sleep_risk_factor_nonneg: "0 \<le> sleep_risk_factor ls"
  by (simp add: sleep_risk_factor_def Let_def)

lemma stress_risk_factor_nonneg: "0 \<le> stress_risk_factor ls"
  by (simp add: stress_risk_factor_def Let_def)

lemma smoking_risk_factor_cancer_nonneg: "0 \<le> smoking_risk_factor_cancer p"
  by (simp add: smoking_risk_factor_cancer_def Let_def)

lemma exercise_risk_factor_cancer_nonneg: "0 \<le> exercise_risk_factor_cancer ls"
  by (simp add: exercise_risk_factor_cancer_def)

lemma diet_risk_factor_cancer_nonneg: "0 \<le> diet_risk_factor_cancer ls"
  by (simp add: diet_risk_factor_cancer_def)

lemmas risk_factor_nonneg =
  bp_risk_factor_nonneg chol_risk_factor_nonneg smoking_risk_factor_cv_nonneg
  exercise_risk_factor_nonneg bmi_risk_factor_cv_nonneg glucose_risk_factor_nonneg
  bmi_risk_factor_metabolic_nonneg diet_risk_factor_metabolic_nonneg sleep_risk_factor_nonneg
  stress_risk_factor_nonneg smoking_risk_factor_cancer_nonneg exercise_risk_factor_cancer_nonneg
  diet_risk_factor_cancer_nonneg

lemma calculate_health_risks_result:
  assumes "user_profile ud = Some p" and "health_metrics ud = Some hm"
    and "genetic_data ud = Some g" and "lifestyle_data ud = Some ls"
    and "user_id p = Some uid" and "hdl (cholesterol hm) \<noteq> 0"
    and "map_of (neurodegenerative (risk_factors g)) ''alzheimers'' = Some a"
    and "map_of (neurodegenerative (risk_factors g)) ''parkinsons'' = Some b"
    and "cancer (risk_factors g) \<noteq> []"
  shows "\<exists>r. calculate_health_risks now ud = Inr r \<and>
     risk_level (risk_cardiovascular (ra_risks r)) =
       py_round (min 1.0 (mean
         [cardiovascular_disease (risk_factors g), bp_risk_factor hm,
          chol_risk_factor (total_chol (cholesterol hm) / hdl (cholesterol hm)),
          smoking_risk_factor_cv p, exercise_risk_factor ls, bmi_risk_factor_cv p])) 2 \<and>
     risk_level (risk_metabolic (ra_risks r)) =
       py_round (min 1.0 (mean
         [type_2_diabetes (risk_factors g), glucose_risk_factor hm, bmi_risk_factor_metabolic p,
          exercise_risk_factor ls, diet_risk_factor_metabolic ls])) 2 \<and>
     risk_level (risk_neurological (ra_risks r)) =
       py_round (min 1.0 (mean
         [(a + b) / 2, sleep_risk_factor ls, stress_risk_factor ls, exercise_risk_factor ls,
          max 0 (diet_risk_factor_neuro ls)])) 2 \<and>
     risk_level (risk_cancer (ra_risks r)) =
       py_round (min 1.0 (mean
         [sum_list (dict_values (cancer (risk_factors g))) /
            of_nat (length (dict_values (cancer (risk_factors g)))),
          smoking_risk_factor_cancer p, exercise_risk_factor_cancer ls,
          diet_risk_factor_cancer ls])) 2"
  using assms
  by (simp add: calculate_health_risks_def py_div_nonzero Let_def dict_getitem_def
        average_nonempty dict_values_def cong: bind_err_cong)

text \<open>
  C2, as the code has it. On a record on which the two functions return (all sections and
  a \<^verbatim>\<open>user_id\<close>, HDL not zero, a non-empty cancer table, the Alzheimer and Parkinson
  entries) and whose genetic risks lie between 0 and 1, \<^verbatim>\<open>calculate_biological_age\<close>
  returns a biological age of at least 20 and \<^verbatim>\<open>calculate_health_risks\<close> returns, for
  each of the four disease categories, a risk level between 0 and 1.
\<close>

theorem biological_age_floor_and_risk_clamp:
  assumes "user_profile ud = Some p" and "health_metrics ud = Some hm"
    and "impedance_data ud = Some imp" and "lifestyle_data ud = Some ls"
    and "genetic_data ud = Some g" and "user_id p = Some uid"
    and "hdl (cholesterol hm) \<noteq> 0"
    and "unit_interval (cardiovascular_disease (risk_factors g))"
    and "unit_interval (type_2_diabetes (risk_factors g))"
    and "cancer (risk_factors g) \<noteq> []"
    and "\<forall>v \<in> set (dict_values (cancer (risk_factors g))). unit_interval v"
    and "map_of (neurodegenerative (risk_factors g)) ''alzheimers'' = Some a"
    and "map_of (neurodegenerative (risk_factors g)) ''parkinsons'' = Some b"
    and "unit_interval a" and "unit_interval b"
  shows "\<exists>ba ra.
     calculate_biological_age now ud = Inr ba \<and> 20 \<le> biological_age ba \<and>
     calculate_health_risks now' ud = Inr ra \<and>
     unit_interval (risk_level (risk_cardiovascular (ra_risks ra))) \<and>
     unit_interval (risk_level (risk_metabolic (ra_risks ra))) \<and>
     unit_interval (risk_level (risk_neurological (ra_risks ra))) \<and>
     unit_interval (risk_level (risk_cancer (ra_risks ra)))"
proof -
  obtain ba where ba: "calculate_biological_age now ud = Inr ba"
    and age: "biological_age ba =
       py_round (biological_age_raw p hm imp ls (total_chol (cholesterol hm) / hdl (cholesterol hm))) 1"
    using calculate_biological_age_result [OF assms(1-4) assms(6) assms(7)] by blast
  have "of_int 20 \<le> biological_age ba"
    unfolding age by (rule py_round_lower) (simp add: biological_age_raw_floor)
  then have floor: "20 \<le> biological_age ba"
    by simp
  obtain ra where ra: "calculate_health_risks now' ud = Inr ra"
    and cv: "risk_level (risk_cardiovascular (ra_risks ra)) =
       py_round (min 1.0 (mean
         [cardiovascular_disease (risk_factors g), bp_risk_factor hm,
          chol_risk_factor (total_chol (cholesterol hm) / hdl (cholesterol hm)),
          smoking_risk_factor_cv p, exercise_risk_factor ls, bmi_risk_factor_cv p])) 2"
    and met: "risk_level (risk_metabolic (ra_risks ra)) =
       py_round (min 1.0 (mean
         [type_2_diabetes (risk_factors g), glucose_risk_factor hm, bmi_risk_factor_metabolic p,
          exercise_risk_factor ls, diet_risk_factor_metabolic ls])) 2"
    and neu: "risk_level (risk_neurological (ra_risks ra)) =
       py_round (min 1.0 (mean
         [(a + b) / 2, sleep_risk_factor ls, stress_risk_factor ls, exercise_risk_factor ls,
          max 0 (diet_risk_factor_neuro ls)])) 2"
    and can: "risk_level (risk_cancer (ra_risks ra)) =
       py_round (min 1.0 (mean
         [sum_list (dict_values (cancer (risk_factors g))) /
            of_nat (length (dict_values (cancer (risk_factors g)))),
          smoking_risk_factor_cancer p, exercise_risk_factor_cancer ls,
          diet_risk_factor_cancer ls])) 2"
    using calculate_health_risks_result
      [OF assms(1) assms(2) assms(5) assms(4) assms(6) assms(7) assms(12) assms(13) assms(10)]
    by blast
  have "0 \<le> sum_list (dict_values (cancer (risk_factors g)))"
    using assms(11) by (intro sum_list_nonneg) (simp add: unit_interval_def)
  then have avg: "0 \<le> sum_list (dict_values (cancer (risk_factors g))) /
            of_nat (length (dict_values (cancer (risk_factors g))))"
    by simp
  have "unit_interval (risk_level (risk_cardiovascular (ra_risks ra)))"
    unfolding cv using assms(8)
    by (intro clamped_risk_level mean_nonneg) (simp add: unit_interval_def risk_factor_nonneg)
  moreover have "unit_interval (risk_level (risk_metabolic (ra_risks ra)))"
    unfolding met using assms(9)
    by (intro clamped_risk_level mean_nonneg) (simp add: unit_interval_def risk_factor_nonneg)
  moreover have "unit_interval (risk_level (risk_neurological (ra_risks ra)))"
    unfolding neu using assms(14) assms(15)
    by (intro clamped_risk_level mean_nonneg) (simp add: unit_interval_def risk_factor_nonneg)
  moreover have "unit_interval (risk_level (risk_cancer (ra_risks ra)))"
    unfolding can using avg
    by (intro clamped_risk_level mean_nonneg) (simp add: risk_factor_nonneg)
  ultimately show ?thesis
    using ba floor ra by blast
qed

theorem biological_age_floor_and_risk_clamp_witness:
  "\<exists>ba ra.
     calculate_biological_age ''2024-01-01T10:00:00.000002'' example_user = Inr ba \<and>
     20 \<le> biological_age ba \<and>
     calculate_health_risks ''2024-01-01T10:00:00.000003'' example_user = Inr ra \<and>
     unit_interval (risk_level (risk_cardiovascular (ra_risks ra))) \<and>
     unit_interval (risk_level (risk_metabolic (ra_risks ra))) \<and>
     unit_interval (risk_level (risk_neurological (ra_risks ra))) \<and>
     unit_interval (risk_level (risk_cancer (ra_risks ra)))"
  by (rule biological_age_floor_and_risk_clamp
        [where uid = "''user_0001''" and p = example_profile and hm = example_metrics
           and imp = example_impedance and ls = example_lifestyle and g = example_genetic
           and a = "0.05" and b = "0.02"])
     (simp_all add: example_defs unit_interval_def dict_values_def)

text \<open>
  C2 as stated, for every input record, fails: with an HDL value of zero both functions
  raise \<^verbatim>\<open>ZeroDivisionError\<close> and return no value.
\<close>

theorem division_by_zero_hdl:
  "calculate_biological_age ''2024-01-01T10:00:00.000002'' example_user_hdl_zero =
     Inl ZeroDivisionError \<and>
   calculate_health_risks ''2024-01-01T10:00:00.000003'' example_user_hdl_zero =
     Inl ZeroDivisionError"
  by (simp add: calculate_biological_age_def calculate_health_risks_def example_user_hdl_zero_def
        example_user_def py_div_def cong: bind_err_cong)

section \<open>The orchestrator and the exceptions it lets through\<close>

lemma predict_without_user_id:
  "user_profile ud = Some p \<Longrightarrow> user_id p = None \<Longrightarrow>
   \<exists>e. predict_life_expectancy now ud = Inl e"
  by (auto simp: predict_life_expectancy_def bind_err_def getitem_def Let_def
        split: option.splits sum.splits)

lemma try_analysis_without_user_id:
  assumes "user_profile ud = Some p" and "user_id p = None"
  shows "\<exists>e. try_analysis clk ud = Inl e"
proof -
  obtain e where "predict_life_expectancy (t_predicted clk) ud = Inl e"
    using predict_without_user_id [OF assms] by blast
  then show ?thesis
    by (simp add: try_analysis_def cong: bind_err_cong)
qed

lemma run_complete_analysis_without_user_id:
  assumes "user_profile ud = Some p" and "user_id p = None"
  shows "run_complete_analysis clk ud = Inl (KeyError ''user_id'')"
proof -
  obtain e where "try_analysis clk ud = Inl e"
    using try_analysis_without_user_id [OF assms] by blast
  then show ?thesis
    using assms by (simp add: run_complete_analysis_def handle_exception_def)
qed

text \<open>
  C4 fails on the code. The profile of this record has no \<^verbatim>\<open>user_id\<close>: the
  \<^verbatim>\<open>KeyError\<close> raised inside the \<^verbatim>\<open>try\<close> block is caught, and the handler reads
  \<^verbatim>\<open>user_data["user_profile"]["user_id"]\<close> again, so a second \<^verbatim>\<open>KeyError\<close> leaves
  \<^verbatim>\<open>run_complete_analysis\<close>: no result object is returned.
\<close>

theorem run_complete_analysis_propagates_key_error:
  "run_complete_analysis example_clock example_user_without_id = Inl (KeyError ''user_id'')"
  by (rule run_complete_analysis_without_user_id [where p = "example_profile\<lparr>user_id := None\<rparr>"])
     (simp_all add: example_user_without_id_def)

text \<open>
  Where the profile is absent, or has a \<^verbatim>\<open>user_id\<close>, the orchestrator does return: a
  result of status "success", or one of status "error" whose message is the text of the
  exception raised in the pipeline.
\<close>

lemma run_complete_analysis_returns:
  assumes "user_profile ud = None \<or> (\<exists>p uid. user_profile ud = Some p \<and> user_id p = Some uid)"
  shows "\<exists>a. run_complete_analysis clk ud = Inr a \<and>
     ((\<exists>r. a = Completed r \<and> status a = ''success'') \<or>
      (\<exists>r e. a = Failed r \<and> status a = ''error'' \<and> try_analysis clk ud = Inl e \<and>
             error_message r = str_exc e))"
proof (cases "try_analysis clk ud")
  case (Inl e)
  then show ?thesis
    using assms by (auto simp: run_complete_analysis_def handle_exception_def)
next
  case (Inr res)
  then have "ar_status res = ''success''"
    by (auto simp: try_analysis_def bind_err_def split: sum.splits)
  with Inr show ?thesis
    by (simp add: run_complete_analysis_def)
qed

section \<open>The recommendations do not depend on the clock, the time stamp apart\<close>

lemma generate_recommendations_result:
  assumes "user_profile ud = Some p" and "health_metrics ud = Some hm"
    and "lifestyle_data ud = Some ls" and "user_id p = Some uid"
  shows "generate_recommendations now ud le hr =
     Inr \<lparr>rec_user_id = uid,
          recommendations = build_recommendations p hm ls hr,
          top_priorities = extract_high_priority_recommendations (build_recommendations p hm ls hr),
          potential_impact =
            estimate_impact_on_life_expectancy (build_recommendations p hm ls hr) le,
          generated_at = now\<rparr>"
  using assms by (simp add: generate_recommendations_def Let_def)

text \<open>
  C5, as the code has it. The output of \<^verbatim>\<open>generate_recommendations\<close> holds the reading
  of the clock in \<^verbatim>\<open>generated_at\<close>. Two calls on the same arguments, at the readings
  \<open>t1\<close> and \<open>t2\<close>, agree in everything else: the second output is the first with
  \<open>t2\<close> as its \<^verbatim>\<open>generated_at\<close>, and the two calls raise the same exception if one
  does.
\<close>

theorem generate_recommendations_clock_only_in_timestamp:
  "generate_recommendations t2 ud le hr =
     map_sum id (\<lambda>r. r\<lparr>generated_at := t2\<rparr>) (generate_recommendations t1 ud le hr)"
  by (auto simp: generate_recommendations_def bind_err_def getitem_def Let_def
        split: option.splits)

lemmas risk_defs =
  bp_risk_factor_def chol_risk_factor_def smoking_risk_factor_cv_def exercise_risk_factor_def
  bmi_risk_factor_cv_def glucose_risk_factor_def bmi_risk_factor_metabolic_def
  diet_risk_factor_metabolic_def sleep_risk_factor_def stress_risk_factor_def
  diet_risk_factor_neuro_def smoking_risk_factor_cancer_def exercise_risk_factor_cancer_def
  diet_risk_factor_cancer_def categorize_risk_def dict_getitem_def

lemma example_health_risks:
  "calculate_health_risks ''2024-01-01T10:00:00.000003'' example_user = Inr example_risk_assessment"
  by (simp add: calculate_health_risks_def example_risk_assessment_def example_defs risk_defs
        python_defs cong: bind_err_cong)

text \<open>
  C5 as stated fails: two calls on the same arguments seven seconds apart return outputs
  that are not identical.
\<close>

theorem example_recommendations_differ_in_timestamp:
  "generate_recommendations ''2024-01-01T10:00:00.000004'' example_user example_prediction
     example_risk_assessment \<noteq>
   generate_recommendations ''2024-01-01T10:00:07.000004'' example_user example_prediction
     example_risk_assessment"
proof -
  have sections: "user_profile example_user = Some example_profile"
    "health_metrics example_user = Some example_metrics"
    "lifestyle_data example_user = Some example_lifestyle"
    "user_id example_profile = Some ''user_0001''"
    by (simp_all add: example_user_def example_profile_def)
  show ?thesis
    by (simp add: generate_recommendations_result [OF sections])
qed

section \<open>Quitting smoking\<close>

lemma quit_smoking_no_op:
  "user_profile ud = Some p \<Longrightarrow> lower (smoking_status p) \<noteq> ''current'' \<Longrightarrow>
   apply_quit_smoking_scenario d ud = Inr ud"
  by (simp add: apply_quit_smoking_scenario_def cong: bind_err_cong)

lemma quit_smoking_result:
  assumes "user_profile ud = Some p" and "health_metrics ud = Some hm"
    and "lower (smoking_status p) = ''current''"
  shows "apply_quit_smoking_scenario d ud =
     Inr (ud\<lparr>user_profile := Some (p\<lparr>smoking_status := ''Former''\<rparr>),
             health_metrics := Some
               \<lparr>blood_pressure =
                  \<lparr>systolic = max 110 (systolic (blood_pressure hm) - bp_systolic_reduction d),
                   diastolic = max 70 (diastolic (blood_pressure hm) - bp_diastolic_reduction d)\<rparr>,
                resting_heart_rate = max 60 (resting_heart_rate hm - heart_rate_reduction d),
                cholesterol =
                  \<lparr>total_chol = max 150 (total_chol (cholesterol hm) * (1 - chol_improvement d)),
                   hdl = hdl (cholesterol hm),
                   ldl = max 70 (ldl (cholesterol hm) * (1 - chol_improvement d))\<rparr>,
                fasting_glucose = fasting_glucose hm,
                hba1c = hba1c hm,
                vo2_max = vo2_max hm + vo2_increase d,
                body_fat_percentage = body_fat_percentage hm\<rparr>\<rparr>)"
  using assms by (simp add: apply_quit_smoking_scenario_def Let_def)

text \<open>
  C6, as the code has it by design. With draws inside their ranges: a record whose smoking
  status does not read "current" in lower case is returned unchanged; for a record whose
  status does, the new status is "Former" and \<^verbatim>\<open>vo2_max\<close> is strictly greater than
  before. The resting heart rate is reduced down to a floor of 60: for an old rate of at
  least 60 the new rate is the greater of 60 and the old rate minus the reduction, it is
  never above the old rate, it is strictly less whenever the old rate is above 60, and at
  exactly 60 it stays 60. Old rates below 60 are left out of the statement.
\<close>

theorem quit_smoking_effect:
  assumes "user_profile ud = Some p" and "quit_smoking_draws_ok d"
  shows "(lower (smoking_status p) \<noteq> ''current'' \<longrightarrow> apply_quit_smoking_scenario d ud = Inr ud) \<and>
     (lower (smoking_status p) = ''current'' \<longrightarrow>
        (\<forall>hm. health_metrics ud = Some hm \<longrightarrow>
           (\<exists>ud' p' hm'.
              apply_quit_smoking_scenario d ud = Inr ud' \<and>
              user_profile ud' = Some p' \<and> smoking_status p' = ''Former'' \<and>
              health_metrics ud' = Some hm' \<and>
              (60 \<le> resting_heart_rate hm \<longrightarrow>
                 resting_heart_rate hm' =
                   max 60 (resting_heart_rate hm - heart_rate_reduction d) \<and>
                 resting_heart_rate hm' \<le> resting_heart_rate hm) \<and>
              (60 < resting_heart_rate hm \<longrightarrow> resting_heart_rate hm' < resting_heart_rate hm) \<and>
              (resting_heart_rate hm = 60 \<longrightarrow> resting_heart_rate hm' = 60) \<and>
              vo2_max hm < vo2_max hm')))"
proof (intro conjI impI allI)
  assume "lower (smoking_status p) \<noteq> ''current''"
  then show "apply_quit_smoking_scenario d ud = Inr ud"
    using assms(1) by (rule quit_smoking_no_op [rotated])
next
  fix hm
  assume cur: "lower (smoking_status p) = ''current''" and hm: "health_metrics ud = Some hm"
  from assms(2) have "5 \<le> heart_rate_reduction d" and "5 \<le> vo2_increase d"
    by (simp_all add: quit_smoking_draws_ok_def uniform_def)
  then show "\<exists>ud' p' hm'.
              apply_quit_smoking_scenario d ud = Inr ud' \<and>
              user_profile ud' = Some p' \<and> smoking_status p' = ''Former'' \<and>
              health_metrics ud' = Some hm' \<and>
              (60 \<le> resting_heart_rate hm \<longrightarrow>
                 resting_heart_rate hm' =
                   max 60 (resting_heart_rate hm - heart_rate_reduction d) \<and>
                 resting_heart_rate hm' \<le> resting_heart_rate hm) \<and>
              (60 < resting_heart_rate hm \<longrightarrow> resting_heart_rate hm' < resting_heart_rate hm) \<and>
              (resting_heart_rate hm = 60 \<longrightarrow> resting_heart_rate hm' = 60) \<and>
              vo2_max hm < vo2_max hm'"
    by (simp add: quit_smoking_result [OF assms(1) hm cur])
qed

theorem quit_smoking_effect_witness:
  "apply_quit_smoking_scenario example_draws example_never_smoker = Inr example_never_smoker \<and>
   (\<exists>ud' p' hm'.
      apply_quit_smoking_scenario example_draws example_fast_heart = Inr ud' \<and>
      user_profile ud' = Some p' \<and> smoking_status p' = ''Former'' \<and>
      health_metrics ud' = Some hm' \<and>
      resting_heart_rate hm' = 70 \<and> resting_heart_rate hm' \<le> 78 \<and>
      resting_heart_rate hm' < 78 \<and>
      (30 :: real) < vo2_max hm')"
proof -
  have ok: "quit_smoking_draws_ok example_draws"
    by (simp add: quit_smoking_draws_ok_def uniform_def example_draws_def)
  have never: "user_profile example_never_smoker =
      Some (example_profile\<lparr>smoking_status := ''Never''\<rparr>)"
    by (simp add: example_never_smoker_def)
  have fast: "user_profile example_fast_heart = Some example_profile"
    by (simp add: example_fast_heart_def example_user_def)
  have hm: "health_metrics example_fast_heart = Some (example_metrics\<lparr>resting_heart_rate := 78\<rparr>)"
    by (simp add: example_fast_heart_def)
  have 1: "apply_quit_smoking_scenario example_draws example_never_smoker =
      Inr example_never_smoker"
    using quit_smoking_effect [OF never ok] by (simp add: lower_def lower_char_def)
  have 2: "\<exists>ud' p' hm'.
      apply_quit_smoking_scenario example_draws example_fast_heart = Inr ud' \<and>
      user_profile ud' = Some p' \<and> smoking_status p' = ''Former'' \<and>
      health_metrics ud' = Some hm' \<and>
      resting_heart_rate hm' = 70 \<and> resting_heart_rate hm' \<le> 78 \<and>
      resting_heart_rate hm' < 78 \<and>
      (30 :: real) < vo2_max hm'"
    using quit_smoking_effect [OF fast ok] hm
    by (simp add: lower_def lower_char_def example_profile_def example_metrics_def
          example_draws_def)
  from 1 2 show ?thesis
    by (rule conjI)
qed

text \<open>
  C6 as stated fails at the floor: a smoker whose resting heart rate is 60 keeps a rate of
  60, which is not strictly less.
\<close>

theorem quit_smoking_keeps_rate_at_floor:
  "quit_smoking_draws_ok example_draws \<and>
   lower (smoking_status example_profile) = ''current'' \<and>
   apply_quit_smoking_scenario example_draws example_at_floor = Inr example_user_quit \<and>
   resting_heart_rate (example_metrics\<lparr>resting_heart_rate := 60\<rparr>) = 60 \<and>
   resting_heart_rate example_metrics_quit = 60"
proof -
  have cur: "lower (smoking_status example_profile) = ''current''"
    by (simp add: example_profile_def lower_def lower_char_def)
  have "apply_quit_smoking_scenario example_draws example_at_floor = Inr example_user_quit"
    by (simp add: quit_smoking_result
          [where p = example_profile and hm = "example_metrics\<lparr>resting_heart_rate := 60\<rparr>",
            OF _ _ cur]
          example_at_floor_def example_user_def example_user_quit_def example_metrics_quit_def
          example_metrics_def example_draws_def)
  with cur show ?thesis
    by (simp add: quit_smoking_draws_ok_def uniform_def example_draws_def
          example_metrics_quit_def)
qed

section \<open>The generator and the HDL value\<close>

lemma example_generate_health_metrics:
  "generate_health_metrics example_health_draws example_profile = Inr example_generated_metrics"
  by (simp add: generate_health_metrics_def example_health_draws_def example_profile_def
        example_generated_metrics_def normal_def py_round_def round_half_even_def Let_def
        cong: bind_err_cong)

text \<open>
  C7 fails on the code. The HDL value is a rounded normal draw, capped from above by the
  total cholesterol minus 50 and not bounded from below (the LDL value, two lines later,
  is). With an HDL draw five standard deviations below the mean the generator returns
  health metrics whose HDL is 0, and \<^verbatim>\<open>predict_life_expectancy\<close> on a record with these
  metrics raises \<^verbatim>\<open>ZeroDivisionError\<close>.
\<close>

theorem generator_can_produce_zero_hdl:
  "health_metrics_draws_ok example_health_draws \<and>
   generate_health_metrics example_health_draws example_profile = Inr example_generated_metrics \<and>
   hdl (cholesterol example_generated_metrics) = 0 \<and>
   predict_life_expectancy ''2024-01-01T10:00:00.000001''
     (example_user\<lparr>health_metrics := Some example_generated_metrics\<rparr>) = Inl ZeroDivisionError"
proof -
  have draws: "health_metrics_draws_ok example_health_draws"
    by (simp add: health_metrics_draws_ok_def uniform_def example_health_draws_def)
  have zero: "hdl (cholesterol example_generated_metrics) = 0"
    by (simp add: example_generated_metrics_def)
  have "predict_life_expectancy ''2024-01-01T10:00:00.000001''
     (example_user\<lparr>health_metrics := Some example_generated_metrics\<rparr>) = Inl ZeroDivisionError"
    by (rule predict_zero_hdl [where hm = example_generated_metrics])
       (simp_all add: example_user_def zero)
  with draws example_generate_health_metrics zero show ?thesis
    by (intro conjI)
qed

end
